theory Spec2Isabelle
  imports Complex_Main "HOL-Library.Sublist"
begin

section \<open>Cell values of the data frames\<close>

text \<open>
  The pipeline of \<^verbatim>\<open>data_collector.py\<close> works on pandas data frames whose numeric
  columns are \<^verbatim>\<open>float64\<close>, IEEE 754 binary64 in round-to-nearest-even. A cell is a
  finite number (\<open>Fin 0\<close> is the positive zero), the negative zero, an infinity, or NaN,
  which is also how pandas stores a missing number. The numbers a cell can hold are the
  doubles: \<open>m * 2 ^ e\<close> with \<open>\<bar>m\<bar> < 2 ^ 53\<close> and \<open>- 1074 \<le> e \<le> 971\<close>.
\<close>

datatype float64 = Fin real | NZero | PInf | NInf | NaN

definition pow2 :: "int \<Rightarrow> real" where
  "pow2 e = (if 0 \<le> e then 2 ^ nat e else 1 / 2 ^ nat (- e))"

definition is_double :: "real \<Rightarrow> bool" where
  "is_double x \<longleftrightarrow> (\<exists>m e. x = of_int m * pow2 e \<and> \<bar>m\<bar> < 2 ^ 53 \<and> - 1074 \<le> e \<and> e \<le> 971)"

text \<open>
  Rounding a positive real \<open>q\<close> to a double. The exponent of the last place is the least
  \<open>e\<close> from \<open>- 1074\<close> on with \<open>q < 2 ^ (e + 53)\<close>, found by bisection (\<open>972\<close> when
  there is none up to \<open>971\<close>); \<open>q\<close> is rounded to the nearest multiple of \<open>2 ^ e\<close>, a
  tie to the even one; a result of \<open>2 ^ 1024\<close> or more is an infinity, and a result of
  zero keeps the sign.
\<close>

fun quantum_between :: "nat \<Rightarrow> real \<Rightarrow> int \<Rightarrow> int \<Rightarrow> int" where
  "quantum_between 0 q lo hi = hi"
| "quantum_between (Suc n) q lo hi =
     (if hi \<le> lo then hi
      else if q < pow2 ((lo + hi) div 2 + 53) then quantum_between n q lo ((lo + hi) div 2)
      else quantum_between n q ((lo + hi) div 2 + 1) hi)"

definition quantum :: "real \<Rightarrow> int" where
  "quantum q = quantum_between 11 q (- 1074) 972"

definition round_even :: "real \<Rightarrow> int" where
  "round_even x =
     (if x - of_int \<lfloor>x\<rfloor> < 1 / 2 then \<lfloor>x\<rfloor>
      else if 1 / 2 < x - of_int \<lfloor>x\<rfloor> then \<lfloor>x\<rfloor> + 1
      else if even \<lfloor>x\<rfloor> then \<lfloor>x\<rfloor> else \<lfloor>x\<rfloor> + 1)"

definition fzero :: "bool \<Rightarrow> float64" where
  "fzero neg = (if neg then NZero else Fin 0)"

definition finf :: "bool \<Rightarrow> float64" where
  "finf neg = (if neg then NInf else PInf)"

definition round_mag :: "bool \<Rightarrow> real \<Rightarrow> float64" where
  "round_mag neg q =
     (let v = of_int (round_even (q / pow2 (quantum q))) * pow2 (quantum q)
      in if pow2 1024 \<le> v then finf neg
         else if v = 0 then fzero neg
         else Fin (if neg then - v else v))"

text \<open>The value of a finite cell, and the sign bit of a cell.\<close>

fun fval :: "float64 \<Rightarrow> real" where
  "fval (Fin a) = a"
| "fval x = 0"

fun sign_bit :: "float64 \<Rightarrow> bool" where
  "sign_bit (Fin a) = (a < 0)"
| "sign_bit NZero = True"
| "sign_bit NInf = True"
| "sign_bit x = False"

text \<open>
  \<^verbatim>\<open>x + y\<close>. An exact sum of zero is the positive zero unless both operands are
  negative zeros.
\<close>

fun fadd :: "float64 \<Rightarrow> float64 \<Rightarrow> float64" where
  "fadd NaN y = NaN"
| "fadd x NaN = NaN"
| "fadd PInf NInf = NaN"
| "fadd NInf PInf = NaN"
| "fadd PInf y = PInf"
| "fadd x PInf = PInf"
| "fadd NInf y = NInf"
| "fadd x NInf = NInf"
| "fadd x y =
     (if fval x + fval y = 0 then fzero (sign_bit x \<and> sign_bit y)
      else round_mag (fval x + fval y < 0) \<bar>fval x + fval y\<bar>)"

text \<open>
  \<^verbatim>\<open>x / y\<close>. Division of two \<^verbatim>\<open>float64\<close> columns never raises in pandas: a zero
  divisor gives an infinity, or NaN for \<^verbatim>\<open>0 / 0\<close>. The sign of the result is the
  exclusive or of the signs of the operands, also for a zero and an infinity.
\<close>

fun fdiv :: "float64 \<Rightarrow> float64 \<Rightarrow> float64" where
  "fdiv NaN y = NaN"
| "fdiv x NaN = NaN"
| "fdiv PInf PInf = NaN"
| "fdiv PInf NInf = NaN"
| "fdiv NInf PInf = NaN"
| "fdiv NInf NInf = NaN"
| "fdiv PInf y = finf (sign_bit y)"
| "fdiv NInf y = finf (\<not> sign_bit y)"
| "fdiv x PInf = fzero (sign_bit x)"
| "fdiv x NInf = fzero (\<not> sign_bit x)"
| "fdiv x y =
     (if fval y = 0 then (if fval x = 0 then NaN else finf (sign_bit x \<noteq> sign_bit y))
      else if fval x = 0 then fzero (sign_bit x \<noteq> sign_bit y)
      else round_mag (sign_bit x \<noteq> sign_bit y) (\<bar>fval x\<bar> / \<bar>fval y\<bar>))"

text \<open>The comparison \<^verbatim>\<open>x > 0\<close>: false on NaN and on both zeros.\<close>

fun gt_zero :: "float64 \<Rightarrow> bool" where
  "gt_zero (Fin a) = (0 < a)"
| "gt_zero PInf = True"
| "gt_zero x = False"

text \<open>\<^verbatim>\<open>isna\<close> on a numeric cell: only NaN is missing, an infinity is not.\<close>

fun isna :: "float64 \<Rightarrow> bool" where
  "isna NaN = True"
| "isna x = False"

text \<open>
  A cell of the \<^verbatim>\<open>expirationDate\<close> column: the string the quote source gave, a
  datetime (microseconds since the epoch) once \<^verbatim>\<open>pd.to_datetime\<close> has converted
  it, or NaT. A \<^verbatim>\<open>timestamp\<close> cell is \<open>Some\<close> instant or \<open>None\<close> for NaT.
\<close>

datatype date_cell = DateStr string | DateTime int | NaT

datatype error = ValueError | IndexError

text \<open>
  \<^verbatim>\<open>pd.to_datetime\<close> on one cell. The parser of date strings is the library's; it
  is a parameter, \<open>None\<close> where the library raises on the string.
\<close>

fun to_datetime :: "(string \<Rightarrow> int option) \<Rightarrow> date_cell \<Rightarrow> error + date_cell" where
  "to_datetime parse (DateStr s) =
     (case parse s of None \<Rightarrow> Inl ValueError | Some t \<Rightarrow> Inr (DateTime t))"
| "to_datetime parse (DateTime t) = Inr (DateTime t)"
| "to_datetime parse NaT = Inr NaT"

text \<open>
  \<^verbatim>\<open>(df['expirationDate'] - df['timestamp']).dt.days\<close>: the days of the time
  difference, rounded towards minus infinity as \<^verbatim>\<open>timedelta.days\<close> is; missing
  when either side is NaT. Instants are unbounded integers: the range of the pandas
  datetime and timedelta types is outside the model.
\<close>

definition microseconds_per_day :: int where
  "microseconds_per_day = 86400000000"

fun dt_days :: "date_cell \<Rightarrow> int option \<Rightarrow> int option" where
  "dt_days (DateTime e) (Some t) = Some ((e - t) div microseconds_per_day)"
| "dt_days e t = None"

text \<open>
  An integer column with missing entries, converted to \<^verbatim>\<open>float64\<close> for the
  division: the integer is rounded to a double (exactly below \<open>2 ^ 53\<close>).
\<close>

fun as_float :: "int option \<Rightarrow> float64" where
  "as_float (Some d) = (if d = 0 then Fin 0 else round_mag (d < 0) \<bar>of_int d\<bar>)"
| "as_float None = NaN"

section \<open>Rows and frames\<close>

text \<open>
  The eight columns of the returned frame (\<^verbatim>\<open>final_cols\<close>), in the order of the
  source.
\<close>

record feature_row =
  underlyingPrice :: float64
  strike :: float64
  optionType :: "string option"
  moneyness :: float64
  timeToExpiration :: float64
  impliedVolatility :: float64
  riskFreeRate :: float64
  marketPrice :: float64

text \<open>
  A contract row as the quote source gives it, with the columns the pipeline reads; the
  other columns of the source (contract symbol, last price, volume, ...) are never read
  and do not reach the returned frame.
\<close>

record chain_row =
  strike :: float64
  bid :: float64
  ask :: float64
  impliedVolatility :: float64

text \<open>The columns \<^verbatim>\<open>fetch_options_data\<close> adds to a contract row.\<close>

record quote_row = chain_row +
  optionType :: "string option"
  expirationDate :: date_cell
  ticker :: string
  timestamp :: "int option"
  underlyingPrice :: float64

text \<open>The columns \<^verbatim>\<open>process_and_clean_data\<close> assigns on the frame it is given.\<close>

record aug_row = quote_row +
  marketPrice :: float64
  daysToExpiration :: "int option"
  timeToExpiration :: float64
  moneyness :: float64
  riskFreeRate :: float64

text \<open>A frame is the list of its rows, each with its index label.\<close>

type_synonym 'r frame = "(nat \<times> 'r) list"

section \<open>The feature processor\<close>

text \<open>The literal \<^verbatim>\<open>0.05\<close> is read as the double nearest to it.\<close>

definition RISK_FREE_RATE :: float64 where
  "RISK_FREE_RATE = round_mag False (5 / 100)"

text \<open>
  The five column assignments of \<^verbatim>\<open>process_and_clean_data\<close> and the conversion of
  \<^verbatim>\<open>expirationDate\<close>, on one row (column arithmetic is element by element).
\<close>

definition assign_columns :: "(string \<Rightarrow> int option) \<Rightarrow> quote_row \<Rightarrow> error + aug_row" where
  "assign_columns parse r =
     (case to_datetime parse (expirationDate r) of
        Inl e \<Rightarrow> Inl e
      | Inr d \<Rightarrow>
          Inr \<lparr> strike = strike r, bid = bid r, ask = ask r,
                impliedVolatility = impliedVolatility r,
                optionType = optionType r,
                expirationDate = d,
                ticker = ticker r,
                timestamp = timestamp r,
                underlyingPrice = underlyingPrice r,
                marketPrice = fdiv (fadd (bid r) (ask r)) (Fin 2),
                daysToExpiration = dt_days d (timestamp r),
                timeToExpiration = fdiv (as_float (dt_days d (timestamp r))) (Fin 365),
                moneyness = fdiv (underlyingPrice r) (strike r),
                riskFreeRate = RISK_FREE_RATE \<rparr>)"

text \<open>
  The assignments on the whole frame: \<^verbatim>\<open>pd.to_datetime\<close> raises when any cell of
  the column cannot be parsed, and the call ends there.
\<close>

fun assign_all :: "(string \<Rightarrow> int option) \<Rightarrow> quote_row frame \<Rightarrow> error + aug_row frame" where
  "assign_all parse [] = Inr []"
| "assign_all parse ((i, r) # df) =
     (case assign_columns parse r of
        Inl e \<Rightarrow> Inl e
      | Inr r' \<Rightarrow>
          (case assign_all parse df of
             Inl e \<Rightarrow> Inl e
           | Inr df' \<Rightarrow> Inr ((i, r') # df')))"

text \<open>The mask \<^verbatim>\<open>(df['bid'] > 0) & (df['ask'] > 0)\<close> on one row.\<close>

definition liquid :: "aug_row \<Rightarrow> bool" where
  "liquid r \<longleftrightarrow> gt_zero (bid r) \<and> gt_zero (ask r)"

text \<open>\<^verbatim>\<open>df[final_cols]\<close> on one row.\<close>

definition final_cols :: "aug_row \<Rightarrow> feature_row" where
  "final_cols r =
     \<lparr> feature_row.underlyingPrice = underlyingPrice r,
       feature_row.strike = strike r,
       feature_row.optionType = optionType r,
       feature_row.moneyness = moneyness r,
       feature_row.timeToExpiration = timeToExpiration r,
       feature_row.impliedVolatility = impliedVolatility r,
       feature_row.riskFreeRate = riskFreeRate r,
       feature_row.marketPrice = marketPrice r \<rparr>"

text \<open>A row that \<^verbatim>\<open>dropna\<close> removes: some cell of it is missing.\<close>

definition has_na :: "feature_row \<Rightarrow> bool" where
  "has_na f \<longleftrightarrow>
     isna (feature_row.underlyingPrice f) \<or> isna (feature_row.strike f) \<or>
     feature_row.optionType f = None \<or> isna (feature_row.moneyness f) \<or>
     isna (feature_row.timeToExpiration f) \<or> isna (feature_row.impliedVolatility f) \<or>
     isna (feature_row.riskFreeRate f) \<or> isna (feature_row.marketPrice f)"

definition dropna :: "feature_row frame \<Rightarrow> feature_row frame" where
  "dropna df = filter (\<lambda>(i, f). \<not> has_na f) df"

text \<open>
  \<^verbatim>\<open>process_and_clean_data(df)\<close>. The assignments write into the frame the caller
  passed, so the result has two parts: the caller's frame as the call leaves it, and the
  frame that is returned. The boolean mask, the column selection and \<^verbatim>\<open>dropna\<close>
  work on new frames and keep the index labels of the rows they keep.
\<close>

definition process_and_clean_data ::
  "(string \<Rightarrow> int option) \<Rightarrow> quote_row frame \<Rightarrow> error + (aug_row frame \<times> feature_row frame)" where
  "process_and_clean_data parse df =
     (case assign_all parse df of
        Inl e \<Rightarrow> Inl e
      | Inr df1 \<Rightarrow>
          let df2 = filter (\<lambda>(i, r). liquid r) df1;
              processed_df = map (\<lambda>(i, r). (i, final_cols r)) df2
          in Inr (df1, dropna processed_df))"

section \<open>The fetcher\<close>

text \<open>
  What a run reads from outside: the quote source (the \<^verbatim>\<open>Close\<close> column of
  \<^verbatim>\<open>stock.history(period='1d')\<close>, \<^verbatim>\<open>stock.options\<close> and
  \<^verbatim>\<open>stock.option_chain(exp_date)\<close> as calls and puts, each by ticker), the clock
  (\<open>now env k\<close> is what the \<open>k\<close>-th call of \<^verbatim>\<open>datetime.now()\<close> of a run
  returns) and the date parser of \<^verbatim>\<open>pd.to_datetime\<close>.
\<close>

record env =
  history_close :: "string \<Rightarrow> float64 list"
  options :: "string \<Rightarrow> string list"
  option_chain :: "string \<Rightarrow> string \<Rightarrow> chain_row list \<times> chain_row list"
  now :: "nat \<Rightarrow> int"
  parse_date :: "string \<Rightarrow> int option"

text \<open>One line of the output file: the header or one record.\<close>

datatype csv_line = Header "string list" | Record feature_row

text \<open>
  What a run changes: the number of clock readings so far, the lines printed, and the
  files (a path with no file is \<open>None\<close>).
\<close>

record world =
  clock :: nat
  stdout :: "string list"
  files :: "string \<Rightarrow> csv_line list option"

definition print :: "string \<Rightarrow> world \<Rightarrow> world" where
  "print s w = w\<lparr>stdout := stdout w @ [s]\<rparr>"

text \<open>\<^verbatim>\<open>.iloc[0]\<close>: raises IndexError on an empty column.\<close>

fun iloc0 :: "'a list \<Rightarrow> error + 'a" where
  "iloc0 [] = Inl IndexError"
| "iloc0 (x # xs) = Inr x"

text \<open>
  A contract row with the columns the loop body assigns: \<^verbatim>\<open>optionType\<close>,
  \<^verbatim>\<open>expirationDate\<close>, \<^verbatim>\<open>ticker\<close>, \<^verbatim>\<open>timestamp\<close> and
  \<^verbatim>\<open>underlyingPrice\<close>.
\<close>

definition tag_row :: "string \<Rightarrow> string \<Rightarrow> string \<Rightarrow> int \<Rightarrow> float64 \<Rightarrow> chain_row \<Rightarrow> quote_row" where
  "tag_row option_type exp_date ticker_symbol t current_stock_price c =
     \<lparr> strike = strike c, bid = bid c, ask = ask c,
       impliedVolatility = impliedVolatility c,
       optionType = Some option_type,
       expirationDate = DateStr exp_date,
       ticker = ticker_symbol,
       timestamp = Some t,
       underlyingPrice = current_stock_price \<rparr>"

text \<open>The body of the loop over \<^verbatim>\<open>stock.options\<close>: the frame of one expiration.\<close>

definition options_df :: "env \<Rightarrow> string \<Rightarrow> float64 \<Rightarrow> nat \<Rightarrow> string \<Rightarrow> quote_row list" where
  "options_df e ticker_symbol current_stock_price k exp_date =
     (case option_chain e ticker_symbol exp_date of
        (calls, puts) \<Rightarrow>
          map (tag_row ''call'' exp_date ticker_symbol (now e k) current_stock_price) calls @
          map (tag_row ''put'' exp_date ticker_symbol (now e k) current_stock_price) puts)"

text \<open>The loop: \<^verbatim>\<open>all_options_data\<close>, one frame for each expiration, the clock read once for each.\<close>

fun all_options_data :: "env \<Rightarrow> string \<Rightarrow> float64 \<Rightarrow> nat \<Rightarrow> string list \<Rightarrow> quote_row list list" where
  "all_options_data e ticker_symbol current_stock_price k [] = []"
| "all_options_data e ticker_symbol current_stock_price k (exp_date # exps) =
     options_df e ticker_symbol current_stock_price k exp_date #
     all_options_data e ticker_symbol current_stock_price (Suc k) exps"

text \<open>\<^verbatim>\<open>pd.concat(frames, ignore_index=True)\<close>: the rows in order, labelled from 0.\<close>

definition concat_ignore_index :: "'r list list \<Rightarrow> 'r frame" where
  "concat_ignore_index frames = enumerate 0 (concat frames)"

definition skip_message :: "string \<Rightarrow> string" where
  "skip_message ticker_symbol =
     ''Could not fetch current price for '' @ ticker_symbol @ ''. Skipping.''"

text \<open>
  \<^verbatim>\<open>fetch_options_data(ticker_symbol)\<close>. The \<^verbatim>\<open>except IndexError\<close> clause
  handles that error alone; \<^verbatim>\<open>pd.DataFrame()\<close> is the frame with no rows.
\<close>

definition fetch_options_data :: "env \<Rightarrow> string \<Rightarrow> world \<Rightarrow> error + (quote_row frame \<times> world)" where
  "fetch_options_data e ticker_symbol w =
     (case iloc0 (history_close e ticker_symbol) of
        Inl err \<Rightarrow>
          (if err = IndexError then Inr ([], print (skip_message ticker_symbol) w)
           else Inl err)
      | Inr current_stock_price \<Rightarrow>
          let exps = options e ticker_symbol;
              frames = all_options_data e ticker_symbol current_stock_price (clock w) exps;
              w' = w\<lparr>clock := clock w + length exps\<rparr>
          in if frames = [] then Inr ([], w')
             else Inr (concat_ignore_index frames, w'))"

section \<open>The main script\<close>

definition TICKERS :: "string list" where
  "TICKERS = [''AAPL'', ''MSFT'', ''NVDA'', ''TSLA'', ''GOOGL'', ''AMZN'']"

definition OUTPUT_CSV :: string where
  "OUTPUT_CSV = ''options_dataset.csv''"

text \<open>The loop over the tickers; \<open>acc\<close> is \<^verbatim>\<open>all_ticker_data\<close> so far.\<close>

fun collect :: "env \<Rightarrow> string list \<Rightarrow> quote_row frame list \<Rightarrow> world \<Rightarrow> error + (quote_row frame list \<times> world)" where
  "collect e [] acc w = Inr (acc, w)"
| "collect e (t # ts) acc w =
     (case fetch_options_data e t (print (''Fetching data for '' @ t @ ''...'') w) of
        Inl err \<Rightarrow> Inl err
      | Inr (data, w') \<Rightarrow> collect e ts (if data \<noteq> [] then acc @ [data] else acc) w')"

text \<open>The header line of the file: the names of \<^verbatim>\<open>final_cols\<close>.\<close>

definition column_names :: "string list" where
  "column_names = [''underlyingPrice'', ''strike'', ''optionType'', ''moneyness'',
     ''timeToExpiration'', ''impliedVolatility'', ''riskFreeRate'', ''marketPrice'']"

datatype csv_mode = ModeW | ModeA

text \<open>
  \<^verbatim>\<open>df.to_csv(path, mode=..., header=..., index=False)\<close>: mode \<^verbatim>\<open>'w'\<close> replaces
  the content of the file, mode \<^verbatim>\<open>'a'\<close> writes after it.
\<close>

definition to_csv :: "feature_row frame \<Rightarrow> string \<Rightarrow> csv_mode \<Rightarrow> bool \<Rightarrow> world \<Rightarrow> world" where
  "to_csv df path mode header w =
     (let old = (case mode of
                   ModeW \<Rightarrow> []
                 | ModeA \<Rightarrow> (case files w path of None \<Rightarrow> [] | Some ls \<Rightarrow> ls));
          new = (if header then [Header column_names] else []) @ map (\<lambda>(i, f). Record f) df
      in w\<lparr>files := (files w)(path \<mapsto> old @ new)\<rparr>)"

definition digits :: string where
  "digits = ''0123456789''"

function str_nat :: "nat \<Rightarrow> string" where
  "str_nat n = (if n < 10 then [digits ! n] else str_nat (n div 10) @ [digits ! (n mod 10)])"
  by pat_completeness auto
termination
  by (relation "measure id") auto

text \<open>
  The last statements of the script: the frame is written after the content of the file
  without a header when \<^verbatim>\<open>os.path.exists(OUTPUT_CSV)\<close>, and as a new file with
  the header otherwise.
\<close>

definition persist :: "feature_row frame \<Rightarrow> world \<Rightarrow> world" where
  "persist model_ready_df w =
     (if files w OUTPUT_CSV \<noteq> None
      then print (''Appended '' @ str_nat (length model_ready_df) @
                    '' new records to '' @ OUTPUT_CSV)
             (to_csv model_ready_df OUTPUT_CSV ModeA False w)
      else print (''Created '' @ OUTPUT_CSV @ '' and saved '' @
                    str_nat (length model_ready_df) @ '' records.'')
             (to_csv model_ready_df OUTPUT_CSV ModeW True w))"

text \<open>The statements under \<^verbatim>\<open>if __name__ == "__main__"\<close>.\<close>

definition main :: "env \<Rightarrow> world \<Rightarrow> error + world" where
  "main e w =
     (case collect e TICKERS [] (print ''Starting options data collection...'' w) of
        Inl err \<Rightarrow> Inl err
      | Inr (all_ticker_data, w1) \<Rightarrow>
          if all_ticker_data = [] then Inr (print ''No data collected. Exiting.'' w1)
          else
            let raw_data_df = concat_ignore_index (map (map snd) all_ticker_data) in
            (case process_and_clean_data (parse_date e) raw_data_df of
               Inl err \<Rightarrow> Inl err
             | Inr (raw_after, model_ready_df) \<Rightarrow> Inr (persist model_ready_df w1)))"


section \<open>Example inputs\<close>

text \<open>
  Five rows of one ticker, fetched on 2025-11-18 at 14:30 with the underlying at 105:
  row 0 has bid 1.00, ask 1.25, strike 100 and expires 30 days later; row 1 has a zero
  bid; row 2 expired on 2025-10-17 (a day count of -33); row 3 has a zero strike; row 4 has no
  implied volatility. \<open>example_after\<close> is the frame with the columns the processor
  assigns and \<open>example_out\<close> the frame it returns. The quotients \<open>105 / 100\<close>,
  \<open>30 / 365\<close> and \<open>- 33 / 365\<close> are not doubles; the cells hold the doubles nearest to
  them.
\<close>

definition example_parse :: "string \<Rightarrow> int option" where
  "example_parse s =
     (if s = ''2025-12-19'' then Some 1766102400000000
      else if s = ''2025-10-17'' then Some 1760659200000000
      else None)"

definition example_quote :: "float64 \<Rightarrow> float64 \<Rightarrow> float64 \<Rightarrow> float64 \<Rightarrow> string \<Rightarrow> quote_row" where
  "example_quote b a k iv exp_date =
     \<lparr> strike = k, bid = b, ask = a, impliedVolatility = iv,
       optionType = Some ''call'', expirationDate = DateStr exp_date, ticker = ''AAPL'',
       timestamp = Some 1763476200000000, underlyingPrice = Fin 105 \<rparr>"

definition example_df :: "quote_row frame" where
  "example_df =
     [(0, example_quote (Fin 1) (Fin (5 / 4)) (Fin 100) (Fin (1 / 4)) ''2025-12-19''),
      (1, example_quote (Fin 0) (Fin (3 / 2)) (Fin 100) (Fin (1 / 4)) ''2025-12-19''),
      (2, example_quote (Fin 2) (Fin 3) (Fin 100) (Fin (1 / 4)) ''2025-10-17''),
      (3, example_quote (Fin 2) (Fin 3) (Fin 0) (Fin (1 / 4)) ''2025-12-19''),
      (4, example_quote (Fin 2) (Fin 3) (Fin 100) NaN ''2025-12-19'')]"

definition example_derived ::
  "quote_row \<Rightarrow> int \<Rightarrow> float64 \<Rightarrow> int \<Rightarrow> float64 \<Rightarrow> float64 \<Rightarrow> aug_row" where
  "example_derived r e mp d tte mn =
     quote_row.extend (r\<lparr>expirationDate := DateTime e\<rparr>)
       (aug_row.fields mp (Some d) tte mn (Fin (3602879701896397 / 2 ^ 56)))"

definition example_after :: "aug_row frame" where
  "example_after =
     map2 (\<lambda>(i, r) (e, mp, d, tte, mn). (i, example_derived r e mp d tte mn)) example_df
       [(1766102400000000, Fin (9 / 8), 30, Fin (740317746965013 / 2 ^ 53),
           Fin (4728779608739021 / 2 ^ 52)),
        (1766102400000000, Fin (3 / 4), 30, Fin (740317746965013 / 2 ^ 53),
           Fin (4728779608739021 / 2 ^ 52)),
        (1760659200000000, Fin (5 / 2), - 33, Fin (- (6514796173292115 / 2 ^ 56)),
           Fin (4728779608739021 / 2 ^ 52)),
        (1766102400000000, Fin (5 / 2), 30, Fin (740317746965013 / 2 ^ 53), PInf),
        (1766102400000000, Fin (5 / 2), 30, Fin (740317746965013 / 2 ^ 53),
           Fin (4728779608739021 / 2 ^ 52))]"

definition example_feature :: "float64 \<Rightarrow> float64 \<Rightarrow> float64 \<Rightarrow> float64 \<Rightarrow> feature_row" where
  "example_feature k mn tte mp =
     \<lparr> feature_row.underlyingPrice = Fin 105, feature_row.strike = k,
       feature_row.optionType = Some ''call'', feature_row.moneyness = mn,
       feature_row.timeToExpiration = tte, feature_row.impliedVolatility = Fin (1 / 4),
       feature_row.riskFreeRate = Fin (3602879701896397 / 2 ^ 56),
       feature_row.marketPrice = mp \<rparr>"

definition example_out :: "feature_row frame" where
  "example_out =
     [(0, example_feature (Fin 100) (Fin (4728779608739021 / 2 ^ 52))
            (Fin (740317746965013 / 2 ^ 53)) (Fin (9 / 8))),
      (2, example_feature (Fin 100) (Fin (4728779608739021 / 2 ^ 52))
            (Fin (- (6514796173292115 / 2 ^ 56))) (Fin (5 / 2))),
      (3, example_feature (Fin 0) PInf (Fin (740317746965013 / 2 ^ 53)) (Fin (5 / 2)))]"



text \<open>
  Example quote sources. In \<open>example_env\<close> only AAPL has a price; it offers one
  expiration with one call (bid 1.00, ask 1.25, strike 100) and one put with a zero bid.
  \<open>later_env\<close> is the same quote source read ten hours later. In \<open>empty_chain_env\<close>
  every ticker has a price and one expiration whose chain has no rows. In
  \<open>no_price_env\<close> no ticker has a price.
\<close>

definition example_call :: chain_row where
  "example_call =
     \<lparr> strike = Fin 100, bid = Fin 1, ask = Fin (5 / 4), impliedVolatility = Fin (1 / 4) \<rparr>"

definition example_put :: chain_row where
  "example_put =
     \<lparr> strike = Fin 100, bid = Fin 0, ask = Fin (3 / 2), impliedVolatility = Fin (1 / 4) \<rparr>"

definition example_env :: env where
  "example_env =
     \<lparr> history_close = (\<lambda>t. if t = ''AAPL'' then [Fin 105] else []),
       options = (\<lambda>t. if t = ''AAPL'' then [''2025-12-19''] else []),
       option_chain = (\<lambda>t x. if t = ''AAPL'' \<and> x = ''2025-12-19''
                              then ([example_call], [example_put]) else ([], [])),
       now = (\<lambda>k. 1763476200000000 + int k),
       parse_date = example_parse \<rparr>"


definition empty_chain_env :: env where
  "empty_chain_env =
     \<lparr> history_close = (\<lambda>t. [Fin 105]),
       options = (\<lambda>t. [''2025-12-19'']),
       option_chain = (\<lambda>t x. ([], [])),
       now = (\<lambda>k. 1763476200000000 + int k),
       parse_date = example_parse \<rparr>"

definition no_price_env :: env where
  "no_price_env =
     \<lparr> history_close = (\<lambda>t. []),
       options = (\<lambda>t. [''2025-12-19'']),
       option_chain = (\<lambda>t x. ([example_call], [example_put])),
       now = (\<lambda>k. 1763476200000000 + int k),
       parse_date = example_parse \<rparr>"

definition world0 :: world where
  "world0 = \<lparr> clock = 0, stdout = [], files = (\<lambda>p. None) \<rparr>"

text \<open>What \<open>example_env\<close> gives for AAPL: the call, then the put, labelled from 0.\<close>

definition example_fetched :: "quote_row frame" where
  "example_fetched =
     [(0, \<lparr> strike = Fin 100, bid = Fin 1, ask = Fin (5 / 4),
             impliedVolatility = Fin (1 / 4), optionType = Some ''call'',
             expirationDate = DateStr ''2025-12-19'', ticker = ''AAPL'',
             timestamp = Some 1763476200000000, underlyingPrice = Fin 105 \<rparr>),
      (1, \<lparr> strike = Fin 100, bid = Fin 0, ask = Fin (3 / 2),
             impliedVolatility = Fin (1 / 4), optionType = Some ''put'',
             expirationDate = DateStr ''2025-12-19'', ticker = ''AAPL'',
             timestamp = Some 1763476200000000, underlyingPrice = Fin 105 \<rparr>)]"



section \<open>Two runs on the same quote source\<close>




section \<open>Facts about the model\<close>

subsection \<open>Rounding\<close>

lemma pow2_pos [simp]: "0 < pow2 e"
  by (simp add: pow2_def)

lemma pow2_nonzero [simp]: "pow2 e \<noteq> 0"
  using pow2_pos [of e] by linarith

lemma pow2_powi: "pow2 e = 2 powi e"
proof (cases "0 \<le> e")
  case True
  then show ?thesis
    by (simp add: pow2_def power_int_def)
next
  case False
  then show ?thesis
    by (simp add: pow2_def power_int_def field_simps)
qed

lemma pow2_add: "pow2 (a + b) = pow2 a * pow2 b"
  by (simp add: pow2_powi power_int_add)

lemma pow2_mono: "a \<le> b \<Longrightarrow> pow2 a \<le> pow2 b"
  by (simp add: pow2_powi power_int_increasing)

lemma pow2_nat: "0 \<le> e \<Longrightarrow> pow2 e = of_int (2 ^ nat e)"
  by (simp add: pow2_def)

lemma quantum_between_bounds:
  "lo \<le> hi \<Longrightarrow> lo \<le> quantum_between n q lo hi \<and> quantum_between n q lo hi \<le> hi"
proof (induction n arbitrary: lo hi)
  case 0
  then show ?case by simp
next
  case (Suc n)
  show ?case
  proof (cases "hi \<le> lo")
    case True
    with Suc.prems show ?thesis by simp
  next
    case False
    then have m: "lo \<le> (lo + hi) div 2" "(lo + hi) div 2 + 1 \<le> hi"
      by linarith+
    from Suc.IH [OF m(1)] Suc.IH [OF m(2)] False m show ?thesis
      by (auto simp: Let_def)
  qed
qed

text \<open>The bisection finds the least exponent: no smaller one in the range fits.\<close>

lemma quantum_between_least:
  assumes "hi - lo < 2 ^ n" and "lo \<le> hi" and "lo \<le> e" and "e < quantum_between n q lo hi"
  shows "\<not> q < pow2 (e + 53)"
  using assms
proof (induction n arbitrary: lo hi)
  case 0
  then show ?case by simp
next
  case (Suc n)
  show ?case
  proof (cases "hi \<le> lo")
    case True
    with Suc.prems show ?thesis by simp
  next
    case False
    let ?mid = "(lo + hi) div 2"
    from False have m: "lo \<le> ?mid" "?mid + 1 \<le> hi"
      by linarith+
    from Suc.prems(1) have s: "?mid - lo < 2 ^ n" "hi - (?mid + 1) < 2 ^ n"
      by simp_all
    show ?thesis
    proof (cases "q < pow2 (?mid + 53)")
      case True
      with False Suc.prems(4) have "e < quantum_between n q lo ?mid"
        by simp
      from Suc.IH [OF s(1) m(1) Suc.prems(3) this] show ?thesis .
    next
      case nP: False
      show ?thesis
      proof (cases "e \<le> ?mid")
        case True
        then have "pow2 (e + 53) \<le> pow2 (?mid + 53)"
          by (intro pow2_mono) simp
        with nP show ?thesis by linarith
      next
        case e: False
        from nP False Suc.prems(4) have "e < quantum_between n q (?mid + 1) hi"
          by simp
        from Suc.IH [OF s(2) m(2) _ this] e show ?thesis by simp
      qed
    qed
  qed
qed

lemma quantum_le:
  assumes "q < pow2 (e + 53)" and "- 1074 \<le> e"
  shows "quantum q \<le> e"
proof (rule ccontr)
  assume "\<not> quantum q \<le> e"
  then have "e < quantum_between 11 q (- 1074) 972"
    by (simp add: quantum_def)
  from quantum_between_least [OF _ _ assms(2) this] assms(1) show False
    by simp
qed

lemma round_even_of_int [simp]: "round_even (of_int k) = k"
  by (simp add: round_even_def)

text \<open>A double is rounded to itself.\<close>

lemma round_mag_exact:
  assumes "q = of_int m * pow2 e" and "0 < m" and "m < 2 ^ 53" and "- 1074 \<le> e" and "e \<le> 971"
  shows "round_mag neg q = Fin (if neg then - q else q)"
proof -
  have q0: "0 < q"
    using assms by simp
  have "of_int m < (2 ^ 53 :: real)"
    using assms(3) by (metis of_int_less_iff of_int_numeral of_int_power)
  then have "q < 2 ^ 53 * pow2 e"
    unfolding assms(1) by simp
  also have "\<dots> = pow2 (e + 53)"
  proof -
    have "pow2 53 = 2 ^ 53"
      by (simp add: pow2_def)
    then show ?thesis
      by (simp add: pow2_add)
  qed
  finally have lt: "q < pow2 (e + 53)" .
  define e0 where "e0 = quantum q"
  from quantum_le [OF lt assms(4)] have le: "e0 \<le> e"
    by (simp add: e0_def)
  define k where "k = e - e0"
  have k: "e = e0 + k" "0 \<le> k"
    using le by (simp_all add: k_def)
  have pe: "pow2 e = pow2 e0 * pow2 k"
    by (simp add: k(1) pow2_add)
  have pk: "pow2 k = of_int (2 ^ nat k)"
    by (rule pow2_nat [OF k(2)])
  have "q / pow2 e0 = of_int m * pow2 k"
    by (simp add: assms(1) pe)
  also have "\<dots> = of_int (m * 2 ^ nat k)"
    by (simp add: pk)
  finally have r: "round_even (q / pow2 e0) = m * 2 ^ nat k"
    by (simp only: round_even_of_int)
  have v: "of_int (round_even (q / pow2 e0)) * pow2 e0 = q"
  proof -
    have "of_int (round_even (q / pow2 e0)) * pow2 e0 = of_int (m * 2 ^ nat k) * pow2 e0"
      by (simp only: r)
    also have "\<dots> = of_int m * (pow2 e0 * pow2 k)"
      by (simp add: pk)
    also have "\<dots> = q"
      by (simp only: assms(1) pe)
    finally show ?thesis .
  qed
  have "pow2 (e + 53) \<le> pow2 1024"
    using assms(5) by (intro pow2_mono) simp
  with lt have "\<not> pow2 1024 \<le> q"
    by linarith
  with q0 v show ?thesis
    by (simp add: round_mag_def Let_def e0_def [symmetric])
qed

lemma round_mag_double:
  assumes "is_double x" and "x \<noteq> 0"
  shows "round_mag (x < 0) \<bar>x\<bar> = Fin x"
proof -
  from assms(1) obtain m e where x: "x = of_int m * pow2 e" and m: "\<bar>m\<bar> < 2 ^ 53"
    and e: "- 1074 \<le> e" "e \<le> 971"
    unfolding is_double_def by blast
  from assms(2) x have m0: "m \<noteq> 0"
    by auto
  have ax: "\<bar>x\<bar> = of_int \<bar>m\<bar> * pow2 e"
    unfolding x by (simp add: abs_mult abs_of_pos)
  from m0 have "0 < \<bar>m\<bar>"
    by simp
  from round_mag_exact [OF ax this m e, of "x < 0"] show ?thesis
    by (auto simp: abs_if)
qed

lemma round_mag_not_NaN [simp]: "round_mag neg q \<noteq> NaN"
  by (simp add: round_mag_def Let_def fzero_def finf_def)

lemma isna_iff: "isna x \<longleftrightarrow> x = NaN"
  by (cases x) auto

lemma fdiv_not_NaN: "x \<noteq> NaN \<Longrightarrow> c \<noteq> 0 \<Longrightarrow> fdiv x (Fin c) \<noteq> NaN"
  by (cases x) (auto simp: fzero_def finf_def)

lemma fadd_gt_zero_not_NaN: "gt_zero b \<Longrightarrow> gt_zero a \<Longrightarrow> fadd b a \<noteq> NaN"
  by (cases b; cases a) (auto simp: fzero_def)

lemma as_float_not_NaN: "as_float (Some d) \<noteq> NaN"
  by simp


lemma fdiv_double:
  assumes "is_double (u / k)" and "u \<noteq> 0" and "k \<noteq> 0"
  shows "fdiv (Fin u) (Fin k) = Fin (u / k)"
proof -
  have n: "u / k \<noteq> 0"
    using assms(2,3) by simp
  have d: "(u / k < 0) \<longleftrightarrow> (0 < u \<and> k < 0 \<or> u < 0 \<and> 0 < k)"
    by (rule divide_less_0_iff)
  have "0 < u \<or> u < 0" "0 < k \<or> k < 0"
    using assms(2,3) by linarith+
  with d have s: "((u < 0) \<noteq> (k < 0)) = (u / k < 0)"
    by (metis less_asym)
  have "fdiv (Fin u) (Fin k) = round_mag ((u < 0) \<noteq> (k < 0)) (\<bar>u\<bar> / \<bar>k\<bar>)"
    using assms(2,3) by simp
  also have "\<dots> = round_mag (u / k < 0) \<bar>u / k\<bar>"
    by (simp only: s abs_divide)
  also have "\<dots> = Fin (u / k)"
    by (rule round_mag_double [OF assms(1) n])
  finally show ?thesis .
qed


lemma quantum_unfold:
  "quantum q =
     quantum_between (Suc (Suc (Suc (Suc (Suc (Suc (Suc (Suc (Suc (Suc (Suc 0))))))))))) q
       (- 1074) 972"
  by (simp add: quantum_def eval_nat_numeral)

lemmas float_eval = round_mag_def quantum_unfold pow2_def round_even_def fzero_def finf_def
  Let_def

lemma RISK_FREE_RATE_value: "RISK_FREE_RATE = Fin (3602879701896397 / 2 ^ 56)"
  by (simp add: RISK_FREE_RATE_def float_eval)

lemma example_assign_all: "assign_all example_parse example_df = Inr example_after"
  by (simp add: example_df_def example_after_def example_quote_def example_derived_def
      example_parse_def assign_columns_def microseconds_per_day_def RISK_FREE_RATE_value
      quote_row.defs aug_row.defs float_eval)

lemma example_process:
  "process_and_clean_data example_parse example_df = Inr (example_after, example_out)"
  unfolding process_and_clean_data_def example_assign_all
  by (simp add: example_df_def example_after_def example_quote_def example_derived_def
      example_out_def example_feature_def liquid_def final_cols_def dropna_def has_na_def
      quote_row.defs aug_row.defs)

subsection \<open>The processor, row by row\<close>

lemma assign_columns_fields:
  assumes "assign_columns parse r = Inr r'"
  shows "strike r' = strike r \<and> bid r' = bid r \<and> ask r' = ask r \<and>
         impliedVolatility r' = impliedVolatility r \<and> optionType r' = optionType r \<and>
         ticker r' = ticker r \<and> timestamp r' = timestamp r \<and>
         underlyingPrice r' = underlyingPrice r \<and>
         to_datetime parse (expirationDate r) = Inr (expirationDate r') \<and>
         marketPrice r' = fdiv (fadd (bid r) (ask r)) (Fin 2) \<and>
         daysToExpiration r' = dt_days (expirationDate r') (timestamp r) \<and>
         timeToExpiration r' = fdiv (as_float (daysToExpiration r')) (Fin 365) \<and>
         moneyness r' = fdiv (underlyingPrice r) (strike r) \<and>
         riskFreeRate r' = RISK_FREE_RATE"
  using assms by (auto simp: assign_columns_def split: sum.splits)

lemma assign_all_rel:
  "assign_all parse df = Inr df' \<Longrightarrow>
     list_all2 (\<lambda>(i, r) (j, r'). j = i \<and> assign_columns parse r = Inr r') df df'"
proof (induction df arbitrary: df')
  case Nil
  then show ?case by simp
next
  case (Cons x df)
  obtain i r where x: "x = (i, r)" by (cases x)
  from Cons.prems x obtain r' rest where
    r': "assign_columns parse r = Inr r'" and rest: "assign_all parse df = Inr rest"
    and df': "df' = (i, r') # rest"
    by (auto split: sum.splits)
  from Cons.IH [OF rest] r' show ?case by (simp add: x df')
qed

lemma process_Inr:
  assumes "process_and_clean_data parse df = Inr (df', out)"
  shows "assign_all parse df = Inr df'"
    and "out = dropna (map (\<lambda>(i, r). (i, final_cols r)) (filter (\<lambda>(i, r). liquid r) df'))"
  using assms by (auto simp: process_and_clean_data_def split: sum.splits)

lemma process_rel:
  assumes "process_and_clean_data parse df = Inr (df', out)"
  shows "list_all2 (\<lambda>(i, r) (j, r'). j = i \<and> assign_columns parse r = Inr r') df df'"
  using assign_all_rel [OF process_Inr(1) [OF assms]] .

lemma out_eq_filter:
  assumes "process_and_clean_data parse df = Inr (df', out)"
  shows "out = map (\<lambda>(i, r). (i, final_cols r))
                 (filter (\<lambda>(i, r). liquid r \<and> \<not> has_na (final_cols r)) df')"
  unfolding process_Inr(2) [OF assms] dropna_def
  by (induction df') auto

lemma in_out_iff:
  assumes "process_and_clean_data parse df = Inr (df', out)"
  shows "(i, f) \<in> set out \<longleftrightarrow>
         (\<exists>r'. (i, r') \<in> set df' \<and> liquid r' \<and> \<not> has_na (final_cols r') \<and> f = final_cols r')"
  unfolding out_eq_filter [OF assms] by auto

lemma rel_source:
  assumes "list_all2 (\<lambda>(i, r) (j, r'). j = i \<and> Q r r') df df'" and "(i, r') \<in> set df'"
  shows "\<exists>r. (i, r) \<in> set df \<and> Q r r'"
  using assms by (induction rule: list_all2_induct) auto

lemma rel_labels:
  assumes "list_all2 (\<lambda>(i, r) (j, r'). j = i \<and> Q r r') df df'"
  shows "map fst df' = map fst df"
  using assms by (induction rule: list_all2_induct) auto

lemma rel_weaken:
  assumes "list_all2 (\<lambda>(i, r) (j, r'). j = i \<and> Q r r') df df'"
    and "\<And>r r'. Q r r' \<Longrightarrow> Q' r r'"
  shows "list_all2 (\<lambda>(i, r) (j, r'). j = i \<and> Q' r r') df df'"
  using assms(1) by (rule list_all2_mono) (auto intro: assms(2))

lemma out_source:
  assumes "process_and_clean_data parse df = Inr (df', out)" and "(i, f) \<in> set out"
  shows "\<exists>r r'. (i, r) \<in> set df \<and> (i, r') \<in> set df' \<and> assign_columns parse r = Inr r' \<and>
           liquid r' \<and> \<not> has_na (final_cols r') \<and> f = final_cols r'"
proof -
  from assms obtain r' where r': "(i, r') \<in> set df'" "liquid r'" "\<not> has_na (final_cols r')"
    "f = final_cols r'"
    by (auto simp: in_out_iff [OF assms(1)])
  from rel_source [OF process_rel [OF assms(1)] r'(1)] r' show ?thesis by blast
qed

subsection \<open>Rows that are kept\<close>

lemma aug_source:
  assumes "process_and_clean_data parse df = Inr (df', out)" and "(i, r') \<in> set df'"
  shows "\<exists>r. (i, r) \<in> set df \<and> assign_columns parse r = Inr r'"
  using rel_source [OF process_rel [OF assms(1)] assms(2)] .

lemma distinct_label:
  assumes "distinct (map fst df)" and "(i, a) \<in> set df" and "(i, b) \<in> set df"
  shows "a = b"
  using assms by (rule eq_key_imp_eq_value)

lemma gt_zero_iff: "gt_zero x \<longleftrightarrow> x = PInf \<or> (\<exists>a. x = Fin a \<and> 0 < a)"
  by (cases x) auto

lemma midpoint_not_na: "gt_zero b \<Longrightarrow> gt_zero a \<Longrightarrow> \<not> isna (fdiv (fadd b a) (Fin 2))"
  by (simp add: isna_iff fdiv_not_NaN fadd_gt_zero_not_NaN)

lemma final_cols_not_na:
  assumes "assign_columns parse r = Inr r'" and "gt_zero (bid r')" and "gt_zero (ask r')"
  shows "\<not> has_na (final_cols r') \<longleftrightarrow>
         \<not> isna (underlyingPrice r') \<and> \<not> isna (strike r') \<and> optionType r' \<noteq> None \<and>
         \<not> isna (moneyness r') \<and> \<not> isna (timeToExpiration r') \<and>
         \<not> isna (impliedVolatility r')"
proof -
  from assign_columns_fields [OF assms(1)] assms(2,3)
  have "\<not> isna (marketPrice r')" "\<not> isna (riskFreeRate r')"
    by (simp_all add: midpoint_not_na RISK_FREE_RATE_value)
  then show ?thesis
    by (auto simp: has_na_def final_cols_def)
qed

lemma kept_row:
  assumes "process_and_clean_data parse df = Inr (df', out)" and "(i, r') \<in> set df'"
    and "gt_zero (bid r')" and "gt_zero (ask r')" and "\<not> has_na (final_cols r')"
  shows "(i, final_cols r') \<in> set out"
  using assms by (auto simp: in_out_iff [OF assms(1)] liquid_def)

subsection \<open>The derived columns\<close>

lemma to_datetime_Inr:
  assumes "to_datetime parse c = Inr d"
  shows "(d = NaT \<or> (\<exists>e. d = DateTime e)) \<and>
         (\<forall>s. c = DateStr s \<longrightarrow> (\<exists>e. parse s = Some e \<and> d = DateTime e))"
  using assms by (cases c) (auto split: option.splits)



lemma int_double:
  assumes "\<bar>d\<bar> < 2 ^ 53"
  shows "is_double (of_int d)"
  unfolding is_double_def using assms
  by (intro exI [of _ d] exI [of _ 0]) (simp add: pow2_def)

lemma as_float_exact:
  assumes "\<bar>d\<bar> < 2 ^ 53"
  shows "as_float (Some d) = Fin (of_int d)"
proof (cases "d = 0")
  case True
  then show ?thesis by simp
next
  case False
  then have n: "(of_int d :: real) \<noteq> 0"
    by simp
  from round_mag_double [OF int_double [OF assms] n] False show ?thesis
    by simp
qed

lemma years_cases:
  assumes "t = fdiv (as_float (Some d)) (Fin 365)"
  shows "t \<noteq> NaN \<and>
         (d = 0 \<longrightarrow> t = Fin 0) \<and>
         (d \<noteq> 0 \<and> \<bar>d\<bar> < 2 ^ 53 \<longrightarrow> t = round_mag (d < 0) (\<bar>of_int d\<bar> / 365)) \<and>
         (d \<noteq> 0 \<and> \<bar>d\<bar> < 2 ^ 53 \<and> is_double (of_int d / 365) \<longrightarrow> t = Fin (of_int d / 365))"
proof (intro conjI impI)
  show "t \<noteq> NaN"
    unfolding assms by (rule fdiv_not_NaN [OF as_float_not_NaN]) simp
next
  assume "d = 0"
  then show "t = Fin 0"
    by (simp add: assms fzero_def)
next
  assume h: "d \<noteq> 0 \<and> \<bar>d\<bar> < 2 ^ 53"
  then have a: "as_float (Some d) = Fin (of_int d)"
    by (simp only: as_float_exact)
  from h have "fdiv (Fin (of_int d)) (Fin 365) = round_mag (d < 0) (\<bar>of_int d\<bar> / 365)"
    by simp
  then show "t = round_mag (d < 0) (\<bar>of_int d\<bar> / 365)"
    by (simp only: assms a)
next
  assume h: "d \<noteq> 0 \<and> \<bar>d\<bar> < 2 ^ 53 \<and> is_double (of_int d / 365)"
  then have a: "as_float (Some d) = Fin (of_int d)"
    by (simp only: as_float_exact)
  from h have "(of_int d :: real) \<noteq> 0"
    by simp
  from fdiv_double [OF _ this, of 365] h
  have "fdiv (Fin (of_int d)) (Fin 365) = Fin (of_int d / 365)"
    by simp
  then show "t = Fin (of_int d / 365)"
    by (simp only: assms a)
qed

lemma days_cases:
  assumes "assign_columns parse r = Inr r'"
  shows "to_datetime parse (expirationDate r) = Inr (expirationDate r') \<and>
         (\<forall>s. expirationDate r = DateStr s \<longrightarrow>
            (\<exists>e. parse s = Some e \<and> expirationDate r' = DateTime e)) \<and>
         (\<forall>e t. expirationDate r' = DateTime e \<and> timestamp r = Some t \<longrightarrow>
            daysToExpiration r' = Some ((e - t) div 86400000000)) \<and>
         (expirationDate r' = NaT \<or> timestamp r = None \<longrightarrow> daysToExpiration r' = None) \<and>
         timeToExpiration r' = fdiv (as_float (daysToExpiration r')) (Fin 365)"
proof -
  note f = assign_columns_fields [OF assms]
  from f have t: "to_datetime parse (expirationDate r) = Inr (expirationDate r')"
    by simp
  from f have d: "daysToExpiration r' = dt_days (expirationDate r') (timestamp r)"
    by simp
  have "\<forall>e t. expirationDate r' = DateTime e \<and> timestamp r = Some t \<longrightarrow>
            daysToExpiration r' = Some ((e - t) div 86400000000)"
    by (simp add: d microseconds_per_day_def)
  moreover have "expirationDate r' = NaT \<or> timestamp r = None \<longrightarrow> daysToExpiration r' = None"
    unfolding d by (cases "expirationDate r'"; cases "timestamp r") simp_all
  moreover from f have "timeToExpiration r' = fdiv (as_float (daysToExpiration r')) (Fin 365)"
    by simp
  ultimately show ?thesis
    using t to_datetime_Inr [OF t] by blast
qed

lemma moneyness_cases:
  assumes "m = fdiv x y"
  shows "(\<forall>u k. x = Fin u \<and> y = Fin k \<and> u \<noteq> 0 \<and> k \<noteq> 0 \<longrightarrow>
            m = round_mag ((u < 0) \<noteq> (k < 0)) (\<bar>u\<bar> / \<bar>k\<bar>)) \<and>
         (\<forall>u k. x = Fin u \<and> y = Fin k \<and> u \<noteq> 0 \<and> k \<noteq> 0 \<and> is_double (u / k) \<longrightarrow>
            m = Fin (u / k)) \<and>
         (\<forall>u. x = Fin u \<and> u \<noteq> 0 \<and> y = Fin 0 \<longrightarrow> m = (if 0 < u then PInf else NInf)) \<and>
         (\<forall>u. x = Fin u \<and> u \<noteq> 0 \<and> y = NZero \<longrightarrow> m = (if 0 < u then NInf else PInf)) \<and>
         ((x = Fin 0 \<or> x = NZero) \<and> (y = Fin 0 \<or> y = NZero) \<longrightarrow> m = NaN)"
proof (intro conjI allI impI)
  fix u k assume "x = Fin u \<and> y = Fin k \<and> u \<noteq> 0 \<and> k \<noteq> 0"
  then show "m = round_mag ((u < 0) \<noteq> (k < 0)) (\<bar>u\<bar> / \<bar>k\<bar>)"
    by (simp add: assms)
next
  fix u k assume h: "x = Fin u \<and> y = Fin k \<and> u \<noteq> 0 \<and> k \<noteq> 0 \<and> is_double (u / k)"
  then have "fdiv (Fin u) (Fin k) = Fin (u / k)"
    by (intro fdiv_double) blast+
  with h show "m = Fin (u / k)"
    by (simp only: assms)
next
  fix u assume "x = Fin u \<and> u \<noteq> 0 \<and> y = Fin 0"
  then show "m = (if 0 < u then PInf else NInf)"
    by (auto simp: assms finf_def)
next
  fix u assume "x = Fin u \<and> u \<noteq> 0 \<and> y = NZero"
  then show "m = (if 0 < u then NInf else PInf)"
    by (auto simp: assms finf_def)
next
  assume "(x = Fin 0 \<or> x = NZero) \<and> (y = Fin 0 \<or> y = NZero)"
  then show "m = NaN"
    by (auto simp: assms)
qed

subsection \<open>The fetcher and the main script\<close>

lemma example_fetch:
  "fetch_options_data example_env ''AAPL'' world0 = Inr (example_fetched, world0\<lparr>clock := 1\<rparr>)"
  by (simp add: fetch_options_data_def example_env_def world0_def options_df_def tag_row_def
      example_call_def example_put_def concat_ignore_index_def example_fetched_def
      enumerate_simps)

lemma rows_of_all_options_data:
  "set (concat (all_options_data e t p k xs)) =
     (\<Union>(j, x) \<in> set (enumerate k xs). set (options_df e t p j x))"
  by (induction xs arbitrary: k) (simp_all add: enumerate_simps)

lemma length_all_options_data [simp]: "length (all_options_data e t p k xs) = length xs"
  by (induction xs arbitrary: k) simp_all

lemma all_options_data_Nil [simp]: "all_options_data e t p k xs = [] \<longleftrightarrow> xs = []"
  by (cases xs) simp_all

lemma options_df_Nil: "options_df e t p k x = [] \<longleftrightarrow> option_chain e t x = ([], [])"
  by (cases "option_chain e t x") (simp add: options_df_def)

lemma concat_all_options_data_Nil:
  "concat (all_options_data e t p k xs) = [] \<longleftrightarrow> (\<forall>x \<in> set xs. option_chain e t x = ([], []))"
  by (induction xs arbitrary: k) (simp_all add: options_df_Nil)

lemma fetch_no_price:
  assumes "history_close e t = []"
  shows "fetch_options_data e t w = Inr ([], print (skip_message t) w)"
  using assms by (simp add: fetch_options_data_def)

lemma fetch_priced:
  assumes "history_close e t = p # ps"
  shows "fetch_options_data e t w =
           Inr (concat_ignore_index (all_options_data e t p (clock w) (options e t)),
                w\<lparr>clock := clock w + length (options e t)\<rparr>)"
  using assms by (simp add: fetch_options_data_def Let_def concat_ignore_index_def)

lemma map_snd_concat_ignore_index: "map snd (concat_ignore_index fs) = concat fs"
  by (simp add: concat_ignore_index_def map_snd_enumerate)

lemma map_fst_concat_ignore_index:
  "map fst (concat_ignore_index fs) = [0..<length (concat_ignore_index fs)]"
  by (simp add: concat_ignore_index_def map_fst_enumerate)

lemma rows_concat_ignore_index: "snd ` set (concat_ignore_index fs) = set (concat fs)"
proof -
  have "snd ` set (concat_ignore_index fs) = set (map snd (concat_ignore_index fs))"
    by simp
  then show ?thesis
    by (simp only: map_snd_concat_ignore_index)
qed

lemma concat_ignore_index_Nil: "concat_ignore_index fs = [] \<longleftrightarrow> concat fs = []"
proof -
  have "length (concat_ignore_index fs) = length (concat fs)"
    by (simp add: concat_ignore_index_def)
  then show ?thesis
    by (metis length_0_conv)
qed

lemma fetch_priced_empty_iff:
  "concat_ignore_index (all_options_data e t p k xs) = [] \<longleftrightarrow>
     xs = [] \<or> (\<forall>x \<in> set xs. option_chain e t x = ([], []))"
  unfolding concat_ignore_index_Nil concat_all_options_data_Nil by auto

lemma print_files [simp]: "files (print s w) = files w"
  by (simp add: print_def)


lemma fetch_total: "\<exists>data w'. fetch_options_data e t w = Inr (data, w')"
  by (cases "history_close e t") (auto simp: fetch_no_price fetch_priced)

lemma fetch_files:
  assumes "fetch_options_data e t w = Inr (data, w')"
  shows "files w' = files w"
proof (cases "history_close e t")
  case Nil
  with assms show ?thesis
    by (auto simp: fetch_no_price)
next
  case (Cons p ps)
  with assms show ?thesis
    by (auto simp: fetch_priced)
qed




lemma collect_all_empty:
  assumes "\<forall>t \<in> set ts. \<forall>w0 data w'. fetch_options_data e t w0 = Inr (data, w') \<longrightarrow> data = []"
  shows "\<exists>w'. collect e ts acc w = Inr (acc, w') \<and> files w' = files w"
  using assms
proof (induction ts arbitrary: w)
  case Nil
  then show ?case by simp
next
  case (Cons t ts)
  obtain d w1 where f: "fetch_options_data e t (print (''Fetching data for '' @ t @ ''...'') w) = Inr (d, w1)"
    using fetch_total by blast
  with Cons.prems have d: "d = []"
    by (meson list.set_intros(1))
  from Cons.prems have "\<forall>t \<in> set ts. \<forall>w0 data w'. fetch_options_data e t w0 = Inr (data, w') \<longrightarrow> data = []"
    by simp
  from Cons.IH [OF this, of w1] obtain w' where
    "collect e ts acc w1 = Inr (acc, w')" "files w' = files w1"
    by blast
  with f d fetch_files [OF f] show ?case
    by simp
qed





subsection \<open>Two runs\<close>


















section \<open>The claims about the feature processor\<close>




text \<open>
  C2. Every row of the returned frame comes from a row of the input whose bid and ask are
  both greater than zero; a row whose bid or ask is zero, negative or missing never
  reaches the returned frame (its label is not among the labels returned, labels being
  distinct as they are after \<^verbatim>\<open>ignore_index=True\<close>). The last part says which cells
  pass the comparison: a positive number or plus infinity, never NaN.
\<close>

theorem liquidity_filter_invariant:
  assumes "process_and_clean_data parse df = Inr (df', out)"
  shows "(\<forall>(i, f) \<in> set out. \<exists>r. (i, r) \<in> set df \<and> gt_zero (bid r) \<and> gt_zero (ask r)) \<and>
         (distinct (map fst df) \<longrightarrow>
            (\<forall>(i, r) \<in> set df. \<not> gt_zero (bid r) \<or> \<not> gt_zero (ask r) \<longrightarrow> i \<notin> fst ` set out)) \<and>
         (\<forall>x. gt_zero x \<longleftrightarrow> x = PInf \<or> (\<exists>a. x = Fin a \<and> 0 < a))"
proof (intro conjI impI)
  show "\<forall>(i, f) \<in> set out. \<exists>r. (i, r) \<in> set df \<and> gt_zero (bid r) \<and> gt_zero (ask r)"
  proof clarify
    fix i f assume "(i, f) \<in> set out"
    from out_source [OF assms this] obtain r r' where
      r: "(i, r) \<in> set df" "assign_columns parse r = Inr r'" "liquid r'"
      by blast
    from assign_columns_fields [OF r(2)] r(3) have "gt_zero (bid r) \<and> gt_zero (ask r)"
      by (simp add: liquid_def)
    with r(1) show "\<exists>r. (i, r) \<in> set df \<and> gt_zero (bid r) \<and> gt_zero (ask r)"
      by blast
  qed
next
  assume d: "distinct (map fst df)"
  have "False" if r: "(i, r) \<in> set df" and bad: "\<not> gt_zero (bid r) \<or> \<not> gt_zero (ask r)"
    and f: "(i, f) \<in> set out" for i r f
  proof -
    from out_source [OF assms f] obtain r0 r' where
      r0: "(i, r0) \<in> set df" "assign_columns parse r0 = Inr r'" "liquid r'"
      by blast
    from distinct_label [OF d r0(1) r] have "r0 = r" .
    with assign_columns_fields [OF r0(2)] r0(3) have "gt_zero (bid r) \<and> gt_zero (ask r)"
      by (simp add: liquid_def)
    with bad show False by blast
  qed
  then show "\<forall>(i, r) \<in> set df. \<not> gt_zero (bid r) \<or> \<not> gt_zero (ask r) \<longrightarrow> i \<notin> fst ` set out"
    by fastforce
next
  show "\<forall>x. gt_zero x \<longleftrightarrow> x = PInf \<or> (\<exists>a. x = Fin a \<and> 0 < a)"
    by (simp add: gt_zero_iff)
qed

theorem liquidity_filter_invariant_witness:
  "process_and_clean_data example_parse example_df = Inr (example_after, example_out) \<and>
   distinct (map fst example_df) \<and>
   (\<exists>r. (0, r) \<in> set example_df \<and> gt_zero (bid r) \<and> gt_zero (ask r)) \<and>
   (1, example_quote (Fin 0) (Fin (3 / 2)) (Fin 100) (Fin (1 / 4)) ''2025-12-19'')
     \<in> set example_df \<and>
   1 \<notin> fst ` set example_out"
proof -
  note th = liquidity_filter_invariant [OF example_process]
  have d: "distinct (map fst example_df)"
    by (simp add: example_df_def)
  have m0: "(0, snd (hd example_out)) \<in> set example_out"
    by (simp add: example_out_def)
  have m1: "(1, example_quote (Fin 0) (Fin (3 / 2)) (Fin 100) (Fin (1 / 4)) ''2025-12-19'')
     \<in> set example_df"
    by (simp add: example_df_def)
  have b1: "\<not> gt_zero (bid (example_quote (Fin 0) (Fin (3 / 2)) (Fin 100) (Fin (1 / 4)) ''2025-12-19''))"
    by (simp add: example_quote_def)
  from th m0 have e0: "\<exists>r. (0, r) \<in> set example_df \<and> gt_zero (bid r) \<and> gt_zero (ask r)"
    by blast
  from th d m1 b1 have "1 \<notin> fst ` set example_out"
    by blast
  with example_process d e0 m1 show ?thesis by blast
qed

text \<open>
  C3. On every row \<^verbatim>\<open>daysToExpiration\<close> is the whole number of days from the fetch
  timestamp to the converted expiration date, rounded towards minus infinity (missing
  when either is), and \<^verbatim>\<open>timeToExpiration\<close> is the \<^verbatim>\<open>float64\<close> value of
  \<^verbatim>\<open>daysToExpiration / 365.0\<close>. A row with a day count \<open>d\<close> of either sign has the
  defined value \<open>d / 365\<close> rounded to a double; it is returned whenever its bid and ask
  are greater than zero and its other columns are present, with no condition on the sign
  of \<open>d\<close>, so a negative day count is kept as it is. Every returned row has its years
  from a day count in this way.
\<close>

theorem time_to_expiration_in_years:
  assumes "process_and_clean_data parse df = Inr (df', out)"
  shows "list_all2 (\<lambda>(i, r) (j, r'). j = i \<and>
             to_datetime parse (expirationDate r) = Inr (expirationDate r') \<and>
             (\<forall>s. expirationDate r = DateStr s \<longrightarrow>
                (\<exists>e. parse s = Some e \<and> expirationDate r' = DateTime e)) \<and>
             (\<forall>e t. expirationDate r' = DateTime e \<and> timestamp r = Some t \<longrightarrow>
                daysToExpiration r' = Some ((e - t) div 86400000000)) \<and>
             (expirationDate r' = NaT \<or> timestamp r = None \<longrightarrow> daysToExpiration r' = None) \<and>
             timeToExpiration r' = fdiv (as_float (daysToExpiration r')) (Fin 365))
           df df' \<and>
         (\<forall>(i, r') \<in> set df'. \<forall>d. daysToExpiration r' = Some d \<longrightarrow>
             timeToExpiration r' = fdiv (as_float (Some d)) (Fin 365) \<and>
             timeToExpiration r' \<noteq> NaN \<and>
             (d = 0 \<longrightarrow> timeToExpiration r' = Fin 0) \<and>
             (d \<noteq> 0 \<and> \<bar>d\<bar> < 2 ^ 53 \<longrightarrow>
                timeToExpiration r' = round_mag (d < 0) (\<bar>of_int d\<bar> / 365)) \<and>
             (d \<noteq> 0 \<and> \<bar>d\<bar> < 2 ^ 53 \<and> is_double (of_int d / 365) \<longrightarrow>
                timeToExpiration r' = Fin (of_int d / 365)) \<and>
             (gt_zero (bid r') \<and> gt_zero (ask r') \<and> \<not> isna (underlyingPrice r') \<and>
              \<not> isna (strike r') \<and> optionType r' \<noteq> None \<and> \<not> isna (moneyness r') \<and>
              \<not> isna (impliedVolatility r') \<longrightarrow>
                (\<exists>f. (i, f) \<in> set out \<and>
                     feature_row.timeToExpiration f = timeToExpiration r'))) \<and>
         (\<forall>(i, f) \<in> set out. \<exists>r' d. (i, r') \<in> set df' \<and> daysToExpiration r' = Some d \<and>
             feature_row.timeToExpiration f = fdiv (as_float (Some d)) (Fin 365))"
proof (intro conjI)
  show "list_all2 (\<lambda>(i, r) (j, r'). j = i \<and>
             to_datetime parse (expirationDate r) = Inr (expirationDate r') \<and>
             (\<forall>s. expirationDate r = DateStr s \<longrightarrow>
                (\<exists>e. parse s = Some e \<and> expirationDate r' = DateTime e)) \<and>
             (\<forall>e t. expirationDate r' = DateTime e \<and> timestamp r = Some t \<longrightarrow>
                daysToExpiration r' = Some ((e - t) div 86400000000)) \<and>
             (expirationDate r' = NaT \<or> timestamp r = None \<longrightarrow> daysToExpiration r' = None) \<and>
             timeToExpiration r' = fdiv (as_float (daysToExpiration r')) (Fin 365))
           df df'"
    by (rule rel_weaken [OF process_rel [OF assms]]) (rule days_cases)
next
  have "timeToExpiration r' = fdiv (as_float (Some d)) (Fin 365) \<and>
             timeToExpiration r' \<noteq> NaN \<and>
             (d = 0 \<longrightarrow> timeToExpiration r' = Fin 0) \<and>
             (d \<noteq> 0 \<and> \<bar>d\<bar> < 2 ^ 53 \<longrightarrow>
                timeToExpiration r' = round_mag (d < 0) (\<bar>of_int d\<bar> / 365)) \<and>
             (d \<noteq> 0 \<and> \<bar>d\<bar> < 2 ^ 53 \<and> is_double (of_int d / 365) \<longrightarrow>
                timeToExpiration r' = Fin (of_int d / 365)) \<and>
             (gt_zero (bid r') \<and> gt_zero (ask r') \<and> \<not> isna (underlyingPrice r') \<and>
              \<not> isna (strike r') \<and> optionType r' \<noteq> None \<and> \<not> isna (moneyness r') \<and>
              \<not> isna (impliedVolatility r') \<longrightarrow>
                (\<exists>f. (i, f) \<in> set out \<and>
                     feature_row.timeToExpiration f = timeToExpiration r'))"
    if r': "(i, r') \<in> set df'" and d: "daysToExpiration r' = Some d" for i r' d
  proof -
    from aug_source [OF assms r'] obtain r where r: "assign_columns parse r = Inr r'"
      by blast
    from assign_columns_fields [OF r]
    have "timeToExpiration r' = fdiv (as_float (daysToExpiration r')) (Fin 365)"
      by simp
    then have tte: "timeToExpiration r' = fdiv (as_float (Some d)) (Fin 365)"
      by (simp only: d)
    note y = years_cases [OF tte]
    have "\<exists>f. (i, f) \<in> set out \<and> feature_row.timeToExpiration f = timeToExpiration r'"
      if c: "gt_zero (bid r')" "gt_zero (ask r')" "\<not> isna (underlyingPrice r')"
        "\<not> isna (strike r')" "optionType r' \<noteq> None" "\<not> isna (moneyness r')"
        "\<not> isna (impliedVolatility r')"
    proof -
      from y have "\<not> isna (timeToExpiration r')"
        by (simp add: isna_iff)
      with c have "\<not> has_na (final_cols r')"
        by (simp add: final_cols_not_na [OF r c(1,2)])
      from kept_row [OF assms r' c(1,2) this]
      have "(i, final_cols r') \<in> set out" .
      moreover have "feature_row.timeToExpiration (final_cols r') = timeToExpiration r'"
        by (simp add: final_cols_def)
      ultimately show ?thesis
        by blast
    qed
    with tte y show ?thesis
      by blast
  qed
  then show "\<forall>(i, r') \<in> set df'. \<forall>d. daysToExpiration r' = Some d \<longrightarrow>
             timeToExpiration r' = fdiv (as_float (Some d)) (Fin 365) \<and>
             timeToExpiration r' \<noteq> NaN \<and>
             (d = 0 \<longrightarrow> timeToExpiration r' = Fin 0) \<and>
             (d \<noteq> 0 \<and> \<bar>d\<bar> < 2 ^ 53 \<longrightarrow>
                timeToExpiration r' = round_mag (d < 0) (\<bar>of_int d\<bar> / 365)) \<and>
             (d \<noteq> 0 \<and> \<bar>d\<bar> < 2 ^ 53 \<and> is_double (of_int d / 365) \<longrightarrow>
                timeToExpiration r' = Fin (of_int d / 365)) \<and>
             (gt_zero (bid r') \<and> gt_zero (ask r') \<and> \<not> isna (underlyingPrice r') \<and>
              \<not> isna (strike r') \<and> optionType r' \<noteq> None \<and> \<not> isna (moneyness r') \<and>
              \<not> isna (impliedVolatility r') \<longrightarrow>
                (\<exists>f. (i, f) \<in> set out \<and>
                     feature_row.timeToExpiration f = timeToExpiration r'))"
    by blast
next
  have "\<exists>r' d. (i, r') \<in> set df' \<and> daysToExpiration r' = Some d \<and>
             feature_row.timeToExpiration f = fdiv (as_float (Some d)) (Fin 365)"
    if f: "(i, f) \<in> set out" for i f
  proof -
    from out_source [OF assms f] obtain r r' where
      r: "(i, r') \<in> set df'" "assign_columns parse r = Inr r'"
        "\<not> has_na (final_cols r')" "f = final_cols r'"
      by blast
    from r(3) have nn: "\<not> isna (timeToExpiration r')"
      by (simp add: has_na_def final_cols_def)
    from assign_columns_fields [OF r(2)]
    have t: "timeToExpiration r' = fdiv (as_float (daysToExpiration r')) (Fin 365)"
      by simp
    from nn t obtain d where d: "daysToExpiration r' = Some d"
      by (cases "daysToExpiration r'") auto
    from t d have "feature_row.timeToExpiration f = fdiv (as_float (Some d)) (Fin 365)"
      by (simp only: r(4) final_cols_def feature_row.simps)
    with r(1) d show ?thesis by blast
  qed
  then show "\<forall>(i, f) \<in> set out. \<exists>r' d. (i, r') \<in> set df' \<and> daysToExpiration r' = Some d \<and>
             feature_row.timeToExpiration f = fdiv (as_float (Some d)) (Fin 365)"
    by blast
qed

theorem time_to_expiration_in_years_witness:
  "process_and_clean_data example_parse example_df = Inr (example_after, example_out) \<and>
   (2, snd (example_after ! 2)) \<in> set example_after \<and>
   expirationDate (snd (example_after ! 2)) = DateTime 1760659200000000 \<and>
   timestamp (snd (example_df ! 2)) = Some 1763476200000000 \<and>
   (1760659200000000 - 1763476200000000) div 86400000000 = (- 33 :: int) \<and>
   daysToExpiration (snd (example_after ! 2)) = Some (- 33) \<and>
   timeToExpiration (snd (example_after ! 2)) = round_mag True (\<bar>of_int (- 33)\<bar> / 365) \<and>
   round_mag True (\<bar>of_int (- 33)\<bar> / 365) = Fin (- (6514796173292115 / 2 ^ 56)) \<and>
   (\<exists>f. (2, f) \<in> set example_out \<and>
        feature_row.timeToExpiration f = Fin (- (6514796173292115 / 2 ^ 56)))"
proof -
  note th = time_to_expiration_in_years [OF example_process]
  have m: "(2, snd (example_after ! 2)) \<in> set example_after"
    by (simp add: example_after_def example_df_def)
  have e: "expirationDate (snd (example_after ! 2)) = DateTime 1760659200000000"
    "timestamp (snd (example_df ! 2)) = Some 1763476200000000"
    by (simp_all add: example_after_def example_df_def example_derived_def example_quote_def
        quote_row.defs aug_row.defs)
  have f: "(1760659200000000 - 1763476200000000) div 86400000000 = (- 33 :: int)"
    by simp
  have d: "daysToExpiration (snd (example_after ! 2)) = Some (- 33)"
    by (simp add: example_after_def example_df_def example_derived_def quote_row.defs
        aug_row.defs)
  have c: "gt_zero (bid (snd (example_after ! 2))) \<and> gt_zero (ask (snd (example_after ! 2))) \<and>
     \<not> isna (underlyingPrice (snd (example_after ! 2))) \<and>
     \<not> isna (strike (snd (example_after ! 2))) \<and> optionType (snd (example_after ! 2)) \<noteq> None \<and>
     \<not> isna (moneyness (snd (example_after ! 2))) \<and>
     \<not> isna (impliedVolatility (snd (example_after ! 2)))"
    by (simp add: example_after_def example_df_def example_derived_def example_quote_def
        quote_row.defs aug_row.defs)
  have n: "(- 33 :: int) \<noteq> 0 \<and> \<bar>- 33 :: int\<bar> < 2 ^ 53"
    by simp
  from th m d n have t: "timeToExpiration (snd (example_after ! 2)) =
      round_mag (- 33 < (0 :: int)) (\<bar>of_int (- 33)\<bar> / 365)"
    by blast
  from th m d c have k: "\<exists>f. (2, f) \<in> set example_out \<and>
      feature_row.timeToExpiration f = timeToExpiration (snd (example_after ! 2))"
    by blast
  have v: "round_mag True (\<bar>of_int (- 33)\<bar> / 365) = Fin (- (6514796173292115 / 2 ^ 56))"
    by (simp add: float_eval)
  from t have t': "timeToExpiration (snd (example_after ! 2)) =
      round_mag True (\<bar>of_int (- 33)\<bar> / 365)"
    by simp
  from k t' v have k': "\<exists>f. (2, f) \<in> set example_out \<and>
      feature_row.timeToExpiration f = Fin (- (6514796173292115 / 2 ^ 56))"
    by (simp only:)
  from example_process m e f d t' v k' show ?thesis
    by blast
qed

text \<open>
  C4. On every row \<^verbatim>\<open>moneyness\<close> is the \<^verbatim>\<open>float64\<close> value of
  \<^verbatim>\<open>underlyingPrice / strike\<close>: for finite values other than zero the quotient
  rounded to a double. There is no guard: a row with a strike of zero goes through the
  same division, which gives an infinity with the sign of the underlying price, reversed
  for the negative zero (NaN for a zero underlying price), and such a row with a nonzero
  underlying price is returned like any other row whose bid and ask are greater than zero
  and whose other columns are present.
\<close>

theorem moneyness_unguarded_division:
  assumes "process_and_clean_data parse df = Inr (df', out)"
  shows "list_all2 (\<lambda>(i, r) (j, r'). j = i \<and>
             moneyness r' = fdiv (underlyingPrice r) (strike r) \<and>
             (\<forall>u k. underlyingPrice r = Fin u \<and> strike r = Fin k \<and> u \<noteq> 0 \<and> k \<noteq> 0 \<longrightarrow>
                moneyness r' = round_mag ((u < 0) \<noteq> (k < 0)) (\<bar>u\<bar> / \<bar>k\<bar>)) \<and>
             (\<forall>u k. underlyingPrice r = Fin u \<and> strike r = Fin k \<and> u \<noteq> 0 \<and> k \<noteq> 0 \<and>
                is_double (u / k) \<longrightarrow> moneyness r' = Fin (u / k)) \<and>
             (\<forall>u. underlyingPrice r = Fin u \<and> u \<noteq> 0 \<and> strike r = Fin 0 \<longrightarrow>
                moneyness r' = (if 0 < u then PInf else NInf)) \<and>
             (\<forall>u. underlyingPrice r = Fin u \<and> u \<noteq> 0 \<and> strike r = NZero \<longrightarrow>
                moneyness r' = (if 0 < u then NInf else PInf)) \<and>
             ((underlyingPrice r = Fin 0 \<or> underlyingPrice r = NZero) \<and>
              (strike r = Fin 0 \<or> strike r = NZero) \<longrightarrow> moneyness r' = NaN))
           df df' \<and>
         (\<forall>(i, f) \<in> set out. \<exists>r. (i, r) \<in> set df \<and>
             feature_row.underlyingPrice f = underlyingPrice r \<and>
             feature_row.strike f = strike r \<and>
             feature_row.moneyness f = fdiv (underlyingPrice r) (strike r)) \<and>
         (\<forall>(i, r') \<in> set df'. \<forall>u.
             (strike r' = Fin 0 \<or> strike r' = NZero) \<and> underlyingPrice r' = Fin u \<and> u \<noteq> 0 \<and>
             gt_zero (bid r') \<and> gt_zero (ask r') \<and> optionType r' \<noteq> None \<and>
             \<not> isna (impliedVolatility r') \<and> \<not> isna (timeToExpiration r') \<longrightarrow>
               (\<exists>f. (i, f) \<in> set out \<and> feature_row.strike f = strike r' \<and>
                    feature_row.moneyness f = moneyness r' \<and>
                    (moneyness r' = PInf \<or> moneyness r' = NInf)))"
proof (intro conjI)
  have "moneyness r' = fdiv (underlyingPrice r) (strike r) \<and>
             (\<forall>u k. underlyingPrice r = Fin u \<and> strike r = Fin k \<and> u \<noteq> 0 \<and> k \<noteq> 0 \<longrightarrow>
                moneyness r' = round_mag ((u < 0) \<noteq> (k < 0)) (\<bar>u\<bar> / \<bar>k\<bar>)) \<and>
             (\<forall>u k. underlyingPrice r = Fin u \<and> strike r = Fin k \<and> u \<noteq> 0 \<and> k \<noteq> 0 \<and>
                is_double (u / k) \<longrightarrow> moneyness r' = Fin (u / k)) \<and>
             (\<forall>u. underlyingPrice r = Fin u \<and> u \<noteq> 0 \<and> strike r = Fin 0 \<longrightarrow>
                moneyness r' = (if 0 < u then PInf else NInf)) \<and>
             (\<forall>u. underlyingPrice r = Fin u \<and> u \<noteq> 0 \<and> strike r = NZero \<longrightarrow>
                moneyness r' = (if 0 < u then NInf else PInf)) \<and>
             ((underlyingPrice r = Fin 0 \<or> underlyingPrice r = NZero) \<and>
              (strike r = Fin 0 \<or> strike r = NZero) \<longrightarrow> moneyness r' = NaN)"
    if "assign_columns parse r = Inr r'" for r r'
  proof -
    from assign_columns_fields [OF that]
    have m: "moneyness r' = fdiv (underlyingPrice r) (strike r)"
      by simp
    from m moneyness_cases [OF m] show ?thesis
      by blast
  qed
  then show "list_all2 (\<lambda>(i, r) (j, r'). j = i \<and>
             moneyness r' = fdiv (underlyingPrice r) (strike r) \<and>
             (\<forall>u k. underlyingPrice r = Fin u \<and> strike r = Fin k \<and> u \<noteq> 0 \<and> k \<noteq> 0 \<longrightarrow>
                moneyness r' = round_mag ((u < 0) \<noteq> (k < 0)) (\<bar>u\<bar> / \<bar>k\<bar>)) \<and>
             (\<forall>u k. underlyingPrice r = Fin u \<and> strike r = Fin k \<and> u \<noteq> 0 \<and> k \<noteq> 0 \<and>
                is_double (u / k) \<longrightarrow> moneyness r' = Fin (u / k)) \<and>
             (\<forall>u. underlyingPrice r = Fin u \<and> u \<noteq> 0 \<and> strike r = Fin 0 \<longrightarrow>
                moneyness r' = (if 0 < u then PInf else NInf)) \<and>
             (\<forall>u. underlyingPrice r = Fin u \<and> u \<noteq> 0 \<and> strike r = NZero \<longrightarrow>
                moneyness r' = (if 0 < u then NInf else PInf)) \<and>
             ((underlyingPrice r = Fin 0 \<or> underlyingPrice r = NZero) \<and>
              (strike r = Fin 0 \<or> strike r = NZero) \<longrightarrow> moneyness r' = NaN))
           df df'"
    by (rule rel_weaken [OF process_rel [OF assms]])
next
  have "\<exists>r. (i, r) \<in> set df \<and>
             feature_row.underlyingPrice f = underlyingPrice r \<and>
             feature_row.strike f = strike r \<and>
             feature_row.moneyness f = fdiv (underlyingPrice r) (strike r)"
    if f: "(i, f) \<in> set out" for i f
  proof -
    from out_source [OF assms f] obtain r r' where
      r: "(i, r) \<in> set df" "assign_columns parse r = Inr r'" "f = final_cols r'"
      by blast
    from assign_columns_fields [OF r(2)]
    have "feature_row.underlyingPrice f = underlyingPrice r \<and>
          feature_row.strike f = strike r \<and>
          feature_row.moneyness f = fdiv (underlyingPrice r) (strike r)"
      by (simp add: r(3) final_cols_def)
    with r(1) show ?thesis
      by blast
  qed
  then show "\<forall>(i, f) \<in> set out. \<exists>r. (i, r) \<in> set df \<and>
             feature_row.underlyingPrice f = underlyingPrice r \<and>
             feature_row.strike f = strike r \<and>
             feature_row.moneyness f = fdiv (underlyingPrice r) (strike r)"
    by blast
next
  have "\<exists>f. (i, f) \<in> set out \<and> feature_row.strike f = strike r' \<and>
                    feature_row.moneyness f = moneyness r' \<and>
                    (moneyness r' = PInf \<or> moneyness r' = NInf)"
    if r': "(i, r') \<in> set df'"
      and z: "strike r' = Fin 0 \<or> strike r' = NZero" "underlyingPrice r' = Fin u" "u \<noteq> 0"
      and l: "gt_zero (bid r')" "gt_zero (ask r')"
      and c: "optionType r' \<noteq> None" "\<not> isna (impliedVolatility r')"
        "\<not> isna (timeToExpiration r')"
    for i r' u
  proof -
    from aug_source [OF assms r'] obtain r where r: "assign_columns parse r = Inr r'"
      by blast
    from assign_columns_fields [OF r]
    have mm: "moneyness r' = fdiv (underlyingPrice r') (strike r')"
      by simp
    from moneyness_cases [OF mm] z
    have m: "moneyness r' = PInf \<or> moneyness r' = NInf"
      by (metis (full_types))
    then have "\<not> isna (moneyness r')"
      by auto
    moreover from z have "\<not> isna (strike r')" "\<not> isna (underlyingPrice r')"
      by auto
    ultimately have "\<not> has_na (final_cols r')"
      using c by (simp add: final_cols_not_na [OF r l])
    from kept_row [OF assms r' l this]
    have "(i, final_cols r') \<in> set out" .
    moreover have "feature_row.strike (final_cols r') = strike r'"
      "feature_row.moneyness (final_cols r') = moneyness r'"
      by (simp_all add: final_cols_def)
    ultimately show ?thesis
      using m by blast
  qed
  then show "\<forall>(i, r') \<in> set df'. \<forall>u.
             (strike r' = Fin 0 \<or> strike r' = NZero) \<and> underlyingPrice r' = Fin u \<and> u \<noteq> 0 \<and>
             gt_zero (bid r') \<and> gt_zero (ask r') \<and> optionType r' \<noteq> None \<and>
             \<not> isna (impliedVolatility r') \<and> \<not> isna (timeToExpiration r') \<longrightarrow>
               (\<exists>f. (i, f) \<in> set out \<and> feature_row.strike f = strike r' \<and>
                    feature_row.moneyness f = moneyness r' \<and>
                    (moneyness r' = PInf \<or> moneyness r' = NInf))"
    by blast
qed

theorem moneyness_unguarded_division_witness:
  "process_and_clean_data example_parse example_df = Inr (example_after, example_out) \<and>
   (3, snd (example_after ! 3)) \<in> set example_after \<and>
   strike (snd (example_after ! 3)) = Fin 0 \<and>
   underlyingPrice (snd (example_after ! 3)) = Fin 105 \<and>
   (\<exists>f. (3, f) \<in> set example_out \<and> feature_row.strike f = Fin 0 \<and>
        feature_row.moneyness f = PInf) \<and>
   (\<exists>r. (0, r) \<in> set example_df \<and> underlyingPrice r = Fin 105 \<and> strike r = Fin 100 \<and>
        feature_row.moneyness (snd (hd example_out)) = fdiv (Fin 105) (Fin 100)) \<and>
   fdiv (Fin 105) (Fin 100) = Fin (4728779608739021 / 2 ^ 52) \<and>
   fdiv (Fin 105) NZero = NInf"
proof -
  note th = moneyness_unguarded_division [OF example_process]
  have m: "(3, snd (example_after ! 3)) \<in> set example_after"
    by (simp add: example_after_def example_df_def)
  have c: "(strike (snd (example_after ! 3)) = Fin 0 \<or> strike (snd (example_after ! 3)) = NZero) \<and>
     underlyingPrice (snd (example_after ! 3)) = Fin 105 \<and> (105::real) \<noteq> 0 \<and>
     gt_zero (bid (snd (example_after ! 3))) \<and> gt_zero (ask (snd (example_after ! 3))) \<and>
     optionType (snd (example_after ! 3)) \<noteq> None \<and>
     \<not> isna (impliedVolatility (snd (example_after ! 3))) \<and>
     \<not> isna (timeToExpiration (snd (example_after ! 3)))"
    by (simp add: example_after_def example_df_def example_derived_def example_quote_def
        quote_row.defs aug_row.defs)
  have v: "strike (snd (example_after ! 3)) = Fin 0"
    "underlyingPrice (snd (example_after ! 3)) = Fin 105"
    "moneyness (snd (example_after ! 3)) = PInf"
    by (simp_all add: example_after_def example_df_def example_derived_def example_quote_def
        quote_row.defs aug_row.defs)
  from th m c have "\<exists>f. (3, f) \<in> set example_out \<and>
      feature_row.strike f = strike (snd (example_after ! 3)) \<and>
      feature_row.moneyness f = moneyness (snd (example_after ! 3))"
    by blast
  then have k: "\<exists>f. (3, f) \<in> set example_out \<and> feature_row.strike f = Fin 0 \<and>
      feature_row.moneyness f = PInf"
    by (simp only: v)
  have "(0, snd (hd example_out)) \<in> set example_out"
    by (simp add: example_out_def)
  with th obtain r where r: "(0, r) \<in> set example_df"
    "feature_row.moneyness (snd (hd example_out)) = fdiv (underlyingPrice r) (strike r)"
    by blast
  from r(1) have u: "underlyingPrice r = Fin 105 \<and> strike r = Fin 100"
    by (auto simp: example_df_def example_quote_def)
  with r(2) have q: "feature_row.moneyness (snd (hd example_out)) = fdiv (Fin 105) (Fin 100)"
    by (simp only:)
  have e: "fdiv (Fin 105) (Fin 100) = Fin (4728779608739021 / 2 ^ 52)"
    "fdiv (Fin 105) NZero = NInf"
    by (simp_all add: float_eval)
  from example_process m v(1,2) k r(1) u q e show ?thesis
    by blast
qed

text \<open>
  C5. No row of the returned frame has a missing value in any of the eight columns; a
  row of the frame with a missing value in one of them is dropped, and so is every input
  row with a missing underlying price, strike, option type or implied volatility.
\<close>

theorem no_missing_value_returned:
  assumes "process_and_clean_data parse df = Inr (df', out)"
  shows "(\<forall>(i, f) \<in> set out.
            \<not> isna (feature_row.underlyingPrice f) \<and> \<not> isna (feature_row.strike f) \<and>
            feature_row.optionType f \<noteq> None \<and> \<not> isna (feature_row.moneyness f) \<and>
            \<not> isna (feature_row.timeToExpiration f) \<and>
            \<not> isna (feature_row.impliedVolatility f) \<and>
            \<not> isna (feature_row.riskFreeRate f) \<and> \<not> isna (feature_row.marketPrice f)) \<and>
         (\<forall>(i, r') \<in> set df'. has_na (final_cols r') \<longrightarrow> (i, final_cols r') \<notin> set out) \<and>
         (distinct (map fst df) \<longrightarrow>
            (\<forall>(i, r) \<in> set df.
               isna (underlyingPrice r) \<or> isna (strike r) \<or> optionType r = None \<or>
               isna (impliedVolatility r) \<longrightarrow> i \<notin> fst ` set out))"
proof (intro conjI impI)
  have nn: "\<not> has_na f" if "(i, f) \<in> set out" for i f
    using that by (auto simp: in_out_iff [OF assms])
  show "\<forall>(i, f) \<in> set out.
            \<not> isna (feature_row.underlyingPrice f) \<and> \<not> isna (feature_row.strike f) \<and>
            feature_row.optionType f \<noteq> None \<and> \<not> isna (feature_row.moneyness f) \<and>
            \<not> isna (feature_row.timeToExpiration f) \<and>
            \<not> isna (feature_row.impliedVolatility f) \<and>
            \<not> isna (feature_row.riskFreeRate f) \<and> \<not> isna (feature_row.marketPrice f)"
    using nn by (fastforce simp: has_na_def)
next
  show "\<forall>(i, r') \<in> set df'. has_na (final_cols r') \<longrightarrow> (i, final_cols r') \<notin> set out"
    by (auto simp: in_out_iff [OF assms])
next
  assume d: "distinct (map fst df)"
  have False
    if r: "(i, r) \<in> set df"
      and bad: "isna (underlyingPrice r) \<or> isna (strike r) \<or> optionType r = None \<or>
               isna (impliedVolatility r)"
      and f: "(i, f) \<in> set out" for i r f
  proof -
    from out_source [OF assms f] obtain r0 r' where
      r0: "(i, r0) \<in> set df" "assign_columns parse r0 = Inr r'" "\<not> has_na (final_cols r')"
      by blast
    from distinct_label [OF d r0(1) r] have "r0 = r" .
    with assign_columns_fields [OF r0(2)] bad have "has_na (final_cols r')"
      by (auto simp: has_na_def final_cols_def)
    with r0(3) show False by blast
  qed
  then show "\<forall>(i, r) \<in> set df.
               isna (underlyingPrice r) \<or> isna (strike r) \<or> optionType r = None \<or>
               isna (impliedVolatility r) \<longrightarrow> i \<notin> fst ` set out"
    by fastforce
qed

theorem no_missing_value_returned_witness:
  "process_and_clean_data example_parse example_df = Inr (example_after, example_out) \<and>
   distinct (map fst example_df) \<and>
   (4, example_quote (Fin 2) (Fin 3) (Fin 100) NaN ''2025-12-19'') \<in> set example_df \<and>
   4 \<notin> fst ` set example_out \<and>
   (3, snd (example_out ! 2)) \<in> set example_out \<and>
   \<not> isna (feature_row.moneyness (snd (example_out ! 2))) \<and>
   \<not> isna (feature_row.impliedVolatility (snd (example_out ! 2)))"
proof -
  note th = no_missing_value_returned [OF example_process]
  have d: "distinct (map fst example_df)"
    by (simp add: example_df_def)
  have m4: "(4, example_quote (Fin 2) (Fin 3) (Fin 100) NaN ''2025-12-19'') \<in> set example_df"
    by (simp add: example_df_def)
  have b4: "isna (impliedVolatility (example_quote (Fin 2) (Fin 3) (Fin 100) NaN ''2025-12-19''))"
    by (simp add: example_quote_def)
  from th d m4 b4 have n4: "4 \<notin> fst ` set example_out"
    by blast
  have m3: "(3, snd (example_out ! 2)) \<in> set example_out"
    by (simp add: example_out_def)
  with th have "\<not> isna (feature_row.moneyness (snd (example_out ! 2))) \<and>
     \<not> isna (feature_row.impliedVolatility (snd (example_out ! 2)))"
    by blast
  with example_process d m4 n4 m3 show ?thesis by blast
qed

text \<open>
  C9 does not hold as stated: the processor writes into the frame it is given. On the
  example frame the caller's \<^verbatim>\<open>expirationDate\<close> column holds strings before the
  call and datetimes after it, and the frame has five more columns.
\<close>

theorem processor_writes_into_its_input:
  "process_and_clean_data example_parse example_df = Inr (example_after, example_out) \<and>
   expirationDate (snd (hd example_df)) = DateStr ''2025-12-19'' \<and>
   expirationDate (snd (hd example_after)) = DateTime 1766102400000000 \<and>
   map (apsnd quote_row.truncate) example_after \<noteq> example_df"
proof -
  have a: "expirationDate (snd (hd example_df)) = DateStr ''2025-12-19''"
    by (simp add: example_df_def example_quote_def)
  have b: "expirationDate (snd (hd example_after)) = DateTime 1766102400000000"
    by (simp add: example_after_def example_df_def example_derived_def quote_row.defs
        aug_row.defs)
  have "expirationDate (snd (hd (map (apsnd quote_row.truncate) example_after))) =
      DateTime 1766102400000000"
    by (simp add: example_after_def example_df_def example_derived_def quote_row.defs
        aug_row.defs)
  with a have "map (apsnd quote_row.truncate) example_after \<noteq> example_df"
    by auto
  with example_process a b show ?thesis by blast
qed

text \<open>
  C9, amended. The returned frame is determined by the input frame (with the library's
  date parser and the constant rate): it is the selection of the eight columns on the
  rows that pass the mask and have no missing value, in the order of the input, so the
  labels returned are a subsequence of the labels given. The input frame is changed in
  place and only by the column assignments: its rows are neither removed nor reordered,
  \<^verbatim>\<open>expirationDate\<close> is converted, the five derived columns are added and every other
  column is as it was.
\<close>

theorem processor_order_and_frame_effect:
  assumes "process_and_clean_data parse df = Inr (df', out)"
  shows "out = map (\<lambda>(i, r'). (i, final_cols r'))
                 (filter (\<lambda>(i, r'). liquid r' \<and> \<not> has_na (final_cols r')) df') \<and>
         subseq (map fst out) (map fst df) \<and>
         map fst df' = map fst df \<and>
         list_all2 (\<lambda>(i, r) (j, r'). j = i \<and> assign_columns parse r = Inr r' \<and>
             quote_row.truncate r' = r\<lparr>expirationDate := expirationDate r'\<rparr>) df df'"
proof (intro conjI)
  show o: "out = map (\<lambda>(i, r'). (i, final_cols r'))
                 (filter (\<lambda>(i, r'). liquid r' \<and> \<not> has_na (final_cols r')) df')"
    by (rule out_eq_filter [OF assms])
  show l: "map fst df' = map fst df"
    by (rule rel_labels [OF process_rel [OF assms]])
  have "map fst out = map fst (filter (\<lambda>(i, r'). liquid r' \<and> \<not> has_na (final_cols r')) df')"
    unfolding o by (simp add: comp_def case_prod_unfold)
  also have "subseq \<dots> (map fst df')"
    by (intro subseq_map subseq_filter_left)
  finally show "subseq (map fst out) (map fst df)"
    by (simp add: l)
  show "list_all2 (\<lambda>(i, r) (j, r'). j = i \<and> assign_columns parse r = Inr r' \<and>
             quote_row.truncate r' = r\<lparr>expirationDate := expirationDate r'\<rparr>) df df'"
    by (rule rel_weaken [OF process_rel [OF assms]])
      (auto simp: assign_columns_def quote_row.defs split: sum.splits)
qed

theorem processor_order_and_frame_effect_witness:
  "process_and_clean_data example_parse example_df = Inr (example_after, example_out) \<and>
   subseq (map fst example_out) (map fst example_df) \<and>
   map fst example_out = [0, 2, 3] \<and> map fst example_df = [0, 1, 2, 3, 4] \<and>
   map fst example_after = [0, 1, 2, 3, 4]"
proof -
  note th = processor_order_and_frame_effect [OF example_process]
  have "map fst example_out = [0, 2, 3]" "map fst example_df = [0, 1, 2, 3, 4]"
    by (simp_all add: example_out_def example_df_def)
  with th example_process show ?thesis by simp
qed

section \<open>The claims about the fetcher and the main script\<close>

text \<open>
  C6 does not hold as stated: a missing price and an empty list of expirations are not
  the only cases in which the fetcher returns no rows. For a ticker with a price and one
  expiration whose chain has neither calls nor puts the loop collects one frame with no
  rows, and the result is empty.
\<close>

theorem fetcher_empty_with_price_and_expirations:
  "history_close empty_chain_env ''AAPL'' = [Fin 105] \<and>
   options empty_chain_env ''AAPL'' = [''2025-12-19''] \<and>
   fetch_options_data empty_chain_env ''AAPL'' world0 = Inr ([], world0\<lparr>clock := 1\<rparr>)"
  by (simp add: fetch_options_data_def empty_chain_env_def world0_def options_df_def
      concat_ignore_index_def)

text \<open>
  C6, amended. The fetcher never ends with an error. With no price it prints the skip
  message and returns no rows; with a price and no expirations it returns no rows and
  prints nothing; with a price it returns, labelled from 0, the rows of the frames of all
  the expirations offered, in their order. The result is empty exactly when there is no
  price, or no expiration, or no expiration offered has a call or a put.
\<close>

theorem fetcher_result:
  "\<exists>data w'. fetch_options_data e t w = Inr (data, w') \<and>
     (history_close e t = [] \<longrightarrow> data = [] \<and> w' = print (skip_message t) w) \<and>
     (history_close e t \<noteq> [] \<and> options e t = [] \<longrightarrow> data = [] \<and> w' = w) \<and>
     (\<forall>p ps. history_close e t = p # ps \<longrightarrow>
        map snd data = concat (all_options_data e t p (clock w) (options e t)) \<and>
        map fst data = [0..<length data] \<and>
        snd ` set data =
          (\<Union>(j, x) \<in> set (enumerate (clock w) (options e t)). set (options_df e t p j x)) \<and>
        stdout w' = stdout w) \<and>
     (data = [] \<longleftrightarrow>
        history_close e t = [] \<or> options e t = [] \<or>
        (\<forall>x \<in> set (options e t). option_chain e t x = ([], [])))"
proof (cases "history_close e t")
  case Nil
  then show ?thesis
    by (simp add: fetch_no_price)
next
  case (Cons p ps)
  let ?data = "concat_ignore_index (all_options_data e t p (clock w) (options e t))"
  let ?w = "w\<lparr>clock := clock w + length (options e t)\<rparr>"
  have f: "fetch_options_data e t w = Inr (?data, ?w)"
    by (rule fetch_priced [OF Cons])
  have a: "history_close e t = [] \<longrightarrow> ?data = [] \<and> ?w = print (skip_message t) w"
    by (simp add: Cons)
  have b: "history_close e t \<noteq> [] \<and> options e t = [] \<longrightarrow> ?data = [] \<and> ?w = w"
    by (simp add: concat_ignore_index_def)
  have c: "\<forall>p' ps'. history_close e t = p' # ps' \<longrightarrow>
        map snd ?data = concat (all_options_data e t p' (clock w) (options e t)) \<and>
        map fst ?data = [0..<length ?data] \<and>
        snd ` set ?data =
          (\<Union>(j, x) \<in> set (enumerate (clock w) (options e t)). set (options_df e t p' j x)) \<and>
        stdout ?w = stdout w"
    by (simp only: Cons list.inject map_snd_concat_ignore_index map_fst_concat_ignore_index
        rows_concat_ignore_index rows_of_all_options_data) simp
  have d: "?data = [] \<longleftrightarrow>
        history_close e t = [] \<or> options e t = [] \<or>
        (\<forall>x \<in> set (options e t). option_chain e t x = ([], []))"
    by (simp only: fetch_priced_empty_iff Cons) simp
  from f a b c d show ?thesis
    by blast
qed

theorem fetcher_result_witness:
  "fetch_options_data example_env ''AAPL'' world0 = Inr (example_fetched, world0\<lparr>clock := 1\<rparr>) \<and>
   history_close example_env ''AAPL'' = [Fin 105] \<and>
   map snd example_fetched =
     concat (all_options_data example_env ''AAPL'' (Fin 105) (clock world0)
               (options example_env ''AAPL'')) \<and>
   example_fetched \<noteq> [] \<and>
   history_close example_env ''MSFT'' = [] \<and>
   fetch_options_data example_env ''MSFT'' world0 =
     Inr ([], print (skip_message ''MSFT'') world0)"
proof -
  from fetcher_result [of example_env "''AAPL''" world0] example_fetch
  have "\<forall>p ps. history_close example_env ''AAPL'' = p # ps \<longrightarrow>
        map snd example_fetched =
          concat (all_options_data example_env ''AAPL'' p (clock world0)
                    (options example_env ''AAPL''))"
    by auto
  moreover have "history_close example_env ''AAPL'' = [Fin 105]"
    by (simp add: example_env_def)
  ultimately have a: "map snd example_fetched =
     concat (all_options_data example_env ''AAPL'' (Fin 105) (clock world0)
               (options example_env ''AAPL''))"
    by blast
  have m: "history_close example_env ''MSFT'' = []"
    by (simp add: example_env_def)
  with fetcher_result [of example_env "''MSFT''" world0]
  have b: "fetch_options_data example_env ''MSFT'' world0 =
     Inr ([], print (skip_message ''MSFT'') world0)"
    by auto
  have "example_fetched \<noteq> []"
    by (simp add: example_fetched_def)
  with a b m example_fetch show ?thesis
    by (simp add: example_env_def)
qed

text \<open>
  C10. Every row that one call of the fetcher returns carries the same underlying price:
  the first entry of the close column, read once before the loop over the expirations.
\<close>

theorem underlying_price_constant:
  assumes "fetch_options_data e t w = Inr (data, w')"
  shows "(\<forall>(i, r) \<in> set data. iloc0 (history_close e t) = Inr (underlyingPrice r)) \<and>
         (\<forall>(i, r) \<in> set data. \<forall>(j, r2) \<in> set data. underlyingPrice r2 = underlyingPrice r)"
proof -
  have one: "iloc0 (history_close e t) = Inr (underlyingPrice r)" if "(i, r) \<in> set data" for i r
  proof (cases "history_close e t")
    case Nil
    with assms that show ?thesis
      by (simp add: fetch_no_price)
  next
    case (Cons p ps)
    from assms have "data = concat_ignore_index (all_options_data e t p (clock w) (options e t))"
      by (simp add: fetch_priced [OF Cons])
    with that have "r \<in> snd ` set (concat_ignore_index (all_options_data e t p (clock w) (options e t)))"
      by force
    then obtain j x where "r \<in> set (options_df e t p j x)"
      unfolding rows_concat_ignore_index rows_of_all_options_data by blast
    then have "underlyingPrice r = p"
      by (cases "option_chain e t x") (auto simp: options_df_def tag_row_def)
    with Cons show ?thesis
      by simp
  qed
  have "underlyingPrice r2 = underlyingPrice r"
    if "(i, r) \<in> set data" "(j, r2) \<in> set data" for i r j r2
    using one [OF that(1)] one [OF that(2)] by simp
  with one show ?thesis
    by blast
qed

theorem underlying_price_constant_witness:
  "fetch_options_data example_env ''AAPL'' world0 = Inr (example_fetched, world0\<lparr>clock := 1\<rparr>) \<and>
   length example_fetched = 2 \<and>
   iloc0 (history_close example_env ''AAPL'') = Inr (underlyingPrice (snd (example_fetched ! 0))) \<and>
   underlyingPrice (snd (example_fetched ! 1)) = underlyingPrice (snd (example_fetched ! 0)) \<and>
   underlyingPrice (snd (example_fetched ! 0)) = Fin 105"
proof -
  note th = underlying_price_constant [OF example_fetch]
  have m: "(0, snd (example_fetched ! 0)) \<in> set example_fetched"
    "(1, snd (example_fetched ! 1)) \<in> set example_fetched"
    by (simp_all add: example_fetched_def)
  from th m(1) have a: "iloc0 (history_close example_env ''AAPL'') =
      Inr (underlyingPrice (snd (example_fetched ! 0)))"
    by blast
  from th m have b: "underlyingPrice (snd (example_fetched ! 1)) =
      underlyingPrice (snd (example_fetched ! 0))"
    by blast
  have "length example_fetched = 2" "underlyingPrice (snd (example_fetched ! 0)) = Fin 105"
    by (simp_all add: example_fetched_def)
  with a b example_fetch show ?thesis
    by simp
qed

text \<open>
  C7. When the fetcher returns no rows for every ticker of \<open>TICKERS\<close>, the script ends
  normally, its last printed line is \<^verbatim>\<open>No data collected. Exiting.\<close>, and no file
  is created or changed.
\<close>

theorem no_data_no_write:
  assumes "\<forall>t \<in> set TICKERS. \<forall>w0 data w'.
             fetch_options_data e t w0 = Inr (data, w') \<longrightarrow> data = []"
  shows "\<exists>w'. main e w = Inr w' \<and> files w' = files w \<and>
           last (stdout w') = ''No data collected. Exiting.''"
proof -
  from collect_all_empty [OF assms, of "[]" "print ''Starting options data collection...'' w"]
  obtain w1 where c: "collect e TICKERS [] (print ''Starting options data collection...'' w) = Inr ([], w1)"
    and f: "files w1 = files w"
    by auto
  from c have "main e w = Inr (print ''No data collected. Exiting.'' w1)"
    by (simp add: main_def)
  with f show ?thesis
    by (simp add: print_def)
qed

theorem no_data_no_write_witness:
  "\<exists>w'. main no_price_env world0 = Inr w' \<and> files w' = files world0 \<and>
         files w' OUTPUT_CSV = None \<and>
         last (stdout w') = ''No data collected. Exiting.''"
proof -
  have "\<forall>t \<in> set TICKERS. \<forall>w0 data w'.
          fetch_options_data no_price_env t w0 = Inr (data, w') \<longrightarrow> data = []"
    by (simp add: fetch_options_data_def no_price_env_def)
  from no_data_no_write [OF this, of world0] show ?thesis
    by (auto simp: world0_def)
qed




end
